theory Spec2Isabelle
  imports Main
begin

section \<open>Go values\<close>

text \<open>
  Go's \<open>int\<close> and \<open>int64\<close> are modelled as \<open>int\<close>; the two places of the sources
  that do arithmetic on them (the conversion of a timeout to a \<open>time.Duration\<close> and the
  doubling of the back-off interval) write the 64-bit wrap-around out with \<open>wrap64\<close>.
  A Go \<open>string\<close> is a byte string (\<open>string\<close>, one \<open>char\<close> per byte).
\<close>

definition wrap64 :: "int \<Rightarrow> int" where
  "wrap64 x = (x + 2 ^ 63) mod 2 ^ 64 - 2 ^ 63"

text \<open>Go's integer division truncates toward zero.\<close>

definition quot :: "int \<Rightarrow> int \<Rightarrow> int" where
  "quot a b = sgn a * sgn b * (\<bar>a\<bar> div \<bar>b\<bar>)"

text \<open>
  An \<open>error\<close> value is either an \<open>*exec.ExitError\<close>, from which the sources read
  \<open>ProcessState.ExitCode()\<close>, or any other error (\<open>errors.New\<close>); both carry the
  text that \<open>Error()\<close> returns.
\<close>

datatype error = errors_New string | exec_ExitError int string

fun Error :: "error \<Rightarrow> string" where
  "Error (errors_New m) = m"
| "Error (exec_ExitError c m) = m"

text \<open>\<open>time.Duration\<close> is an \<open>int64\<close> count of nanoseconds.\<close>

type_synonym Duration = int

definition Millisecond :: Duration where
  "Millisecond = 1000000"

definition Second :: Duration where
  "Second = 1000000000"

subsection \<open>strings.TrimSpace\<close>

text \<open>
  \<open>strings.TrimSpace\<close> removes the leading and the trailing white space of a string, as
  Unicode defines it (\<open>unicode.IsSpace\<close>). On the UTF-8 bytes of a Go string these are the
  encodings of U+0009 to U+000D, U+0020, U+0085, U+00A0, U+1680, U+2000 to U+200A, U+2028,
  U+2029, U+202F, U+205F and U+3000.
\<close>

definition white_space :: "string list" where
  "white_space =
    [[CHR 0x09], [CHR 0x0A], [CHR 0x0B], [CHR 0x0C], [CHR 0x0D], [CHR 0x20],
     [CHR 0xC2, CHR 0x85], [CHR 0xC2, CHR 0xA0],
     [CHR 0xE1, CHR 0x9A, CHR 0x80],
     [CHR 0xE2, CHR 0x80, CHR 0x80], [CHR 0xE2, CHR 0x80, CHR 0x81],
     [CHR 0xE2, CHR 0x80, CHR 0x82], [CHR 0xE2, CHR 0x80, CHR 0x83],
     [CHR 0xE2, CHR 0x80, CHR 0x84], [CHR 0xE2, CHR 0x80, CHR 0x85],
     [CHR 0xE2, CHR 0x80, CHR 0x86], [CHR 0xE2, CHR 0x80, CHR 0x87],
     [CHR 0xE2, CHR 0x80, CHR 0x88], [CHR 0xE2, CHR 0x80, CHR 0x89],
     [CHR 0xE2, CHR 0x80, CHR 0x8A],
     [CHR 0xE2, CHR 0x80, CHR 0xA8], [CHR 0xE2, CHR 0x80, CHR 0xA9],
     [CHR 0xE2, CHR 0x80, CHR 0xAF],
     [CHR 0xE2, CHR 0x81, CHR 0x9F],
     [CHR 0xE3, CHR 0x80, CHR 0x80]]"

text \<open>\<open>trim_leading encs s\<close> drops from the front of \<open>s\<close> every byte sequence of \<open>encs\<close>.\<close>

fun trim_leading :: "string list \<Rightarrow> string \<Rightarrow> string" where
  "trim_leading encs [] = []"
| "trim_leading encs (c # cs) =
     (case find (\<lambda>e. e \<noteq> [] \<and> take (length e) (c # cs) = e) encs of
        None \<Rightarrow> c # cs
      | Some e \<Rightarrow> trim_leading encs (drop (length e - 1) cs))"

definition TrimSpace :: "string \<Rightarrow> string" where
  "TrimSpace s = rev (trim_leading (map rev white_space) (rev (trim_leading white_space s)))"

section \<open>Contexts\<close>

text \<open>
  A \<open>context.Context\<close> is the tree of its derivations from \<open>context.Background()\<close>. The
  logger that \<open>log.WithLogger\<close> stores in a context is the list of its fields.
\<close>

type_synonym logger = "(string \<times> int) list"

datatype Context =
    Background
  | WithLogger Context logger
  | WithCancel Context
  | WithTimeout Context Duration

text \<open>
  Only \<open>context.WithCancel\<close> and \<open>context.WithTimeout\<close> make a context that can be
  cancelled; a value stored in a context leaves that to its parent.
\<close>

fun cancellable :: "Context \<Rightarrow> bool" where
  "cancellable Background = False"
| "cancellable (WithLogger c l) = cancellable c"
| "cancellable (WithCancel c) = True"
| "cancellable (WithTimeout c d) = True"

text \<open>A \<open>context.CancelFunc\<close> is the cancel function of the context it was made with; \<open>nil\<close> is \<open>None\<close>.\<close>

datatype CancelFunc = CancelFunc Context

definition context_WithTimeout :: "Context \<Rightarrow> Duration \<Rightarrow> Context \<times> CancelFunc option" where
  "context_WithTimeout parent d = (WithTimeout parent d, Some (CancelFunc (WithTimeout parent d)))"

text \<open>
  Modelled from the spec: \<open>Max\<close> is a function of package scheduler declared outside the
  files at hand; the specification's "effective timeout = max(config.TaskTimeout,
  task.Timeout)" makes it the larger of its two arguments.
\<close>

definition Max_int :: "int \<Rightarrow> int \<Rightarrow> int" where
  "Max_int x y = (if x < y then y else x)"

text \<open>
  \<open>getTimeoutContext\<close> (chain.go, lines 150 to 156); the duration is
  \<open>time.Millisecond * time.Duration(timeout)\<close>, a product of two \<open>int64\<close>.
\<close>

definition getTimeoutContext :: "Context \<Rightarrow> int \<Rightarrow> int \<Rightarrow> Context \<times> CancelFunc option" where
  "getTimeoutContext ctx t1 t2 =
     (let timeout = Max_int t1 t2
      in if timeout > 0 then context_WithTimeout ctx (wrap64 (Millisecond * timeout))
         else (ctx, None))"

section \<open>Data, events and collaborators\<close>

text \<open>The two option structs of shell.go.\<close>

datatype CommanderOptions = CommanderOptions int int string (Args: "string list")

record ExecuteProgramOptions =
  ChainId :: int
  TaskId :: int
  Command :: string
  ParamValue :: "string list"

text \<open>
  The transaction handle \<open>pgx.Tx\<close> is opaque. \<open>pgengine.ChainTask\<close> and \<open>pgengine.Chain\<close>
  are declared outside the files at hand; the records have the fields that chain.go reads
  and writes.
\<close>

type_synonym tx = nat

record ChainTask =
  ChainID :: int
  TaskID :: int
  Script :: string
  Kind :: string
  IgnoreError :: bool
  Timeout :: int
  StartedAt :: int
  Duration :: int
  Txid :: int

record Chain =
  ChainID :: int
  Timeout :: int
  SelfDestruct :: bool

text \<open>
  What a run does to the outside is recorded as a list of events, in order: the calls on the
  commander (with what they returned), the calls on the database engine, the log lines (level
  and message) and the calls of cancel functions.
\<close>

datatype level = DEBUG | INFO | ERROR

datatype event =
    E_Log level string
  | E_CombinedOutput Context string "string list" string "error option"
  | E_CombinedOutputWithOptions Context CommanderOptions string "error option"
  | E_GetChainParamValues Context tx ChainTask
  | E_ExecuteSQLTask Context tx ChainTask "string list"
  | E_executeTask Context string "string list"
  | E_LogChainElementExecution Context ChainTask int string
  | E_StartTransaction Context int
  | E_GetChainElements Context tx int
  | E_RemoveChainRunStatus Context int
  | E_RollbackTransaction Context tx
  | E_CommitTransaction Context tx
  | E_DeleteChainConfig Context int
  | E_cancel CancelFunc

text \<open>
  The collaborators are functions on a state of the outside world \<open>'w\<close> (the database, the
  file system, the processes), which every call may read and change. \<open>commander\<close> is the
  interface of shell.go.
\<close>

record 'w commander =
  CombinedOutput :: "Context \<Rightarrow> string \<Rightarrow> string list \<Rightarrow> 'w \<Rightarrow> (string \<times> error option) \<times> 'w"
  CombinedOutputWithOptions :: "Context \<Rightarrow> CommanderOptions \<Rightarrow> 'w \<Rightarrow> (string \<times> error option) \<times> 'w"

text \<open>
  The methods of \<open>pgengine.PgEngine\<close> that chain.go calls; their bodies are outside the
  files at hand, so each is a parameter. A method with an \<open>error\<close> result returns either the
  error or what it fetched.
\<close>

record 'w PgEngine =
  NoProgramTasks :: bool
  GetChainParamValues :: "Context \<Rightarrow> tx \<Rightarrow> ChainTask \<Rightarrow> 'w \<Rightarrow> (error + string list) \<times> 'w"
  ExecuteSQLTask :: "Context \<Rightarrow> tx \<Rightarrow> ChainTask \<Rightarrow> string list \<Rightarrow> 'w \<Rightarrow> (string \<times> error option) \<times> 'w"
  LogChainElementExecution :: "Context \<Rightarrow> ChainTask \<Rightarrow> int \<Rightarrow> string \<Rightarrow> 'w \<Rightarrow> 'w"
  StartTransaction :: "Context \<Rightarrow> int \<Rightarrow> 'w \<Rightarrow> (error + tx \<times> int) \<times> 'w"
  GetChainElements :: "Context \<Rightarrow> tx \<Rightarrow> int \<Rightarrow> 'w \<Rightarrow> (error + ChainTask list) \<times> 'w"
  RemoveChainRunStatus :: "Context \<Rightarrow> int \<Rightarrow> 'w \<Rightarrow> 'w"
  RollbackTransaction :: "Context \<Rightarrow> tx \<Rightarrow> 'w \<Rightarrow> 'w"
  CommitTransaction :: "Context \<Rightarrow> tx \<Rightarrow> 'w \<Rightarrow> 'w"
  DeleteChainConfig :: "Context \<Rightarrow> int \<Rightarrow> 'w \<Rightarrow> bool \<times> 'w"

record Resource =
  ChainTimeout :: int
  TaskTimeout :: int

text \<open>
  The scheduler, with the collaborators its methods reach outside the struct: the package
  variable \<open>Cmd\<close>, \<open>json.Unmarshal\<close> into a \<open>[]string\<close> (the decoded array or the error),
  the built-in task table behind \<open>executeTask\<close> and the clock (nanoseconds).
\<close>

record 'w Scheduler =
  pgengine :: "'w PgEngine"
  Config :: Resource
  Cmd :: "'w commander"
  json_Unmarshal :: "string \<Rightarrow> error + string list"
  executeTask :: "Context \<Rightarrow> string \<Rightarrow> string list \<Rightarrow> 'w \<Rightarrow> (string \<times> error option) \<times> 'w"
  time_Now :: "'w \<Rightarrow> int"

section \<open>The command runner (shell.go)\<close>

text \<open>
  A function of the model takes the world and returns its results, the world after it and
  the events it caused. \<open>ExecuteProgramCommand\<close> is lines 46 to 79 of shell.go and
  \<open>ExecuteProgramCommandWithOptions\<close> lines 89 to 123; the loop over \<open>paramValues\<close>
  carries the named result \<open>stdout\<close>. The comparison \<open>val > ""\<close> holds for every string
  but the empty one; \<open>params\<close> starts as the empty slice.
\<close>

fun ExecuteProgramCommand_loop ::
  "'w Scheduler \<Rightarrow> Context \<Rightarrow> string \<Rightarrow> string list \<Rightarrow> string \<Rightarrow> 'w
    \<Rightarrow> (int \<times> string \<times> error option) \<times> 'w \<times> event list" where
  "ExecuteProgramCommand_loop sch ctx command [] stdout w = ((0, stdout, None), w, [])"
| "ExecuteProgramCommand_loop sch ctx command (val # vals) stdout w =
     (case (if val \<noteq> [] then json_Unmarshal sch val else Inr []) of
        Inl err \<Rightarrow> ((- 1, [], Some err), w, [])
      | Inr params \<Rightarrow>
          (case CombinedOutput (Cmd sch) ctx command params w of
             ((out, err), w') \<Rightarrow>
               (case err of
                  Some (exec_ExitError exitCode m) \<Rightarrow>
                    ((exitCode, TrimSpace out, err), w',
                     [E_CombinedOutput ctx command params out err, E_Log DEBUG ''Program run''])
                | Some (errors_New m) \<Rightarrow>
                    ((- 1, TrimSpace out, err), w', [E_CombinedOutput ctx command params out err])
                | None \<Rightarrow>
                    (case ExecuteProgramCommand_loop sch ctx command vals (TrimSpace out) w' of
                       (r, w'', evs) \<Rightarrow>
                         (r, w'', E_CombinedOutput ctx command params out err
                                  # E_Log DEBUG ''Program run'' # evs)))))"

definition ExecuteProgramCommand ::
  "'w Scheduler \<Rightarrow> Context \<Rightarrow> string \<Rightarrow> string list \<Rightarrow> 'w
    \<Rightarrow> (int \<times> string \<times> error option) \<times> 'w \<times> event list" where
  "ExecuteProgramCommand sch ctx command0 paramValues w =
     (let command = TrimSpace command0
      in if command = [] then ((- 1, [], Some (errors_New ''Program command cannot be empty'')), w, [])
         else ExecuteProgramCommand_loop sch ctx command
                (if length paramValues = 0 then [[]] else paramValues) [] w)"

fun ExecuteProgramCommandWithOptions_loop ::
  "'w Scheduler \<Rightarrow> Context \<Rightarrow> ExecuteProgramOptions \<Rightarrow> string \<Rightarrow> string list \<Rightarrow> string \<Rightarrow> 'w
    \<Rightarrow> (int \<times> string \<times> error option) \<times> 'w \<times> event list" where
  "ExecuteProgramCommandWithOptions_loop sch ctx opts command [] stdout w = ((0, stdout, None), w, [])"
| "ExecuteProgramCommandWithOptions_loop sch ctx opts command (val # vals) stdout w =
     (case (if val \<noteq> [] then json_Unmarshal sch val else Inr []) of
        Inl err \<Rightarrow> ((- 1, [], Some err), w, [])
      | Inr params \<Rightarrow>
          (case CombinedOutputWithOptions (Cmd sch) ctx
                  (CommanderOptions (ChainId opts) (TaskId opts) command params) w of
             ((out, err), w') \<Rightarrow>
               (case err of
                  Some (exec_ExitError exitCode m) \<Rightarrow>
                    ((exitCode, TrimSpace out, err), w',
                     [E_CombinedOutputWithOptions ctx
                        (CommanderOptions (ChainId opts) (TaskId opts) command params) out err,
                      E_Log DEBUG ''Program run''])
                | Some (errors_New m) \<Rightarrow>
                    ((- 1, TrimSpace out, err), w',
                     [E_CombinedOutputWithOptions ctx
                        (CommanderOptions (ChainId opts) (TaskId opts) command params) out err])
                | None \<Rightarrow>
                    (case ExecuteProgramCommandWithOptions_loop sch ctx opts command vals (TrimSpace out) w' of
                       (r, w'', evs) \<Rightarrow>
                         (r, w'', E_CombinedOutputWithOptions ctx
                                    (CommanderOptions (ChainId opts) (TaskId opts) command params) out err
                                  # E_Log DEBUG ''Program run'' # evs)))))"

definition ExecuteProgramCommandWithOptions ::
  "'w Scheduler \<Rightarrow> Context \<Rightarrow> ExecuteProgramOptions \<Rightarrow> 'w
    \<Rightarrow> (int \<times> string \<times> error option) \<times> 'w \<times> event list" where
  "ExecuteProgramCommandWithOptions sch ctx opts w =
     (let command = TrimSpace (Command opts);
          paramValues = ParamValue opts
      in if command = [] then ((- 1, [], Some (errors_New ''Program command cannot be empty'')), w, [])
         else ExecuteProgramCommandWithOptions_loop sch ctx opts command
                (if length paramValues = 0 then [[]] else paramValues) [] w)"

section \<open>The task executor and the chain executor (chain.go)\<close>

text \<open>
  The source spells the name of \<open>executeChainElement\<close> with a Cyrillic capital Es in
  place of the C; the model writes it in ASCII.

  The \<open>switch task.Kind\<close> of \<open>executeChainElement\<close>. Its result is \<open>None\<close> where the
  source returns from the function inside the switch (a PROGRAM task while program tasks
  are disabled), and otherwise the values of \<open>retCode\<close>, \<open>out\<close> and \<open>err\<close> after it;
  \<open>retCode\<close> is 0 unless a PROGRAM task sets it.
\<close>

definition executeChainElement_switch ::
  "'w Scheduler \<Rightarrow> Context \<Rightarrow> tx \<Rightarrow> ChainTask \<Rightarrow> string list \<Rightarrow> 'w
    \<Rightarrow> (int \<times> string \<times> error option) option \<times> 'w \<times> event list" where
  "executeChainElement_switch sch ctx tx task paramValues w =
     (if Kind task = ''SQL'' then
        (case ExecuteSQLTask (pgengine sch) ctx tx task paramValues w of
           ((out, err), w') \<Rightarrow> (Some (0, out, err), w', [E_ExecuteSQLTask ctx tx task paramValues]))
      else if Kind task = ''PROGRAM'' then
        (if NoProgramTasks (pgengine sch) then
           (None, w, [E_Log INFO ''Program task execution skipped''])
         else
           (case ExecuteProgramCommandWithOptions sch ctx
                   \<lparr>ChainId = ChainTask.ChainID task, TaskId = TaskID task,
                    Command = Script task, ParamValue = paramValues\<rparr> w of
              (r, w', evs) \<Rightarrow> (Some r, w', evs)))
      else if Kind task = ''BUILTIN'' then
        (case executeTask sch ctx (Script task) paramValues w of
           ((out, err), w') \<Rightarrow> (Some (0, out, err), w', [E_executeTask ctx (Script task) paramValues]))
      else (Some (0, [], None), w, []))"

text \<open>The calls that \<open>defer cancel()\<close> leaves for the return of the function.\<close>

definition deferred :: "CancelFunc option \<Rightarrow> event list" where
  "deferred cancel = (case cancel of None \<Rightarrow> [] | Some c \<Rightarrow> [E_cancel c])"

text \<open>
  \<open>executeChainElement\<close> (chain.go, lines 216 to 264) returns \<open>retCode\<close>; the task it
  was handed by pointer is returned as it stands at the end. \<open>Duration\<close> is
  \<open>time.Since(task.StartedAt).Microseconds()\<close>.
\<close>

definition executeChainElement ::
  "'w Scheduler \<Rightarrow> Context \<Rightarrow> tx \<Rightarrow> ChainTask \<Rightarrow> 'w \<Rightarrow> (int \<times> ChainTask) \<times> 'w \<times> event list" where
  "executeChainElement sch ctx0 tx task0 w0 =
     (case GetChainParamValues (pgengine sch) ctx0 tx task0 w0 of
        (Inl err, w1) \<Rightarrow>
          ((- 1, task0), w1,
           [E_GetChainParamValues ctx0 tx task0,
            E_Log ERROR ''cannot fetch parameters values for chain: ''])
      | (Inr paramValues, w1) \<Rightarrow>
          (case getTimeoutContext ctx0 (TaskTimeout (Config sch)) (ChainTask.Timeout task0) of
             (ctx, cancel) \<Rightarrow>
               (let task1 = task0\<lparr>StartedAt := time_Now sch w1\<rparr>
                in case executeChainElement_switch sch ctx tx task1 paramValues w1 of
                     (None, w2, evs) \<Rightarrow>
                       ((- 2, task1), w2,
                        E_GetChainParamValues ctx0 tx task0 # evs @ deferred cancel)
                   | (Some (retCode0, out0, err), w2, evs) \<Rightarrow>
                       (let task2 = task1\<lparr>Duration := quot (time_Now sch w2 - StartedAt task1) 1000\<rparr>;
                            retCode = (if err \<noteq> None \<and> retCode0 = 0 then - 1 else retCode0);
                            out = (case err of None \<Rightarrow> out0
                                   | Some e \<Rightarrow> out0 @ [CHR 0x0A] @ Error e);
                            line = (case err of None \<Rightarrow> E_Log INFO ''Task executed successfully''
                                    | Some e \<Rightarrow> E_Log ERROR ''Task execution failed'');
                            w3 = LogChainElementExecution (pgengine sch) Background task2 retCode out w2
                        in ((retCode, task2), w3,
                            E_GetChainParamValues ctx0 tx task0 # evs
                            @ [line, E_LogChainElementExecution Background task2 retCode out]
                            @ deferred cancel)))))"

text \<open>
  The loop of \<open>executeChain\<close> over \<open>ChainTasks\<close> (chain.go, lines 187 to 206). The first component of its result says
  whether the loop ran to its end (\<open>False\<close>: the function returned from inside it); the
  second lists the tasks that were executed with the \<open>retCode\<close> of each. \<open>ctx\<close> is
  reassigned in every round, so it is carried along.
\<close>

fun executeChain_loop ::
  "'w Scheduler \<Rightarrow> Chain \<Rightarrow> logger \<Rightarrow> tx \<Rightarrow> int \<Rightarrow> Context \<Rightarrow> ChainTask list \<Rightarrow> 'w
    \<Rightarrow> (bool \<times> (ChainTask \<times> int) list) \<times> 'w \<times> event list" where
  "executeChain_loop sch chain chainL tx txid ctx0 [] w = ((True, []), w, [])"
| "executeChain_loop sch chain chainL tx txid ctx0 (task0 # rest) w =
     (let task1 = task0\<lparr>ChainTask.ChainID := Chain.ChainID chain, Txid := txid\<rparr>;
          l = chainL @ [(''task'', TaskID task1)];
          ctx = WithLogger ctx0 l
      in case executeChainElement sch ctx tx task1 w of
           ((retCode, task), w1, evs) \<Rightarrow>
             (let bctx = WithLogger Background l
              in if retCode \<noteq> 0 \<and> \<not> IgnoreError task then
                   ((False, [(task, retCode)]),
                    RollbackTransaction (pgengine sch) bctx tx
                      (RemoveChainRunStatus (pgengine sch) bctx (Chain.ChainID chain) w1),
                    E_Log INFO ''Starting task'' # evs
                    @ [E_Log ERROR ''Chain failed'',
                       E_RemoveChainRunStatus bctx (Chain.ChainID chain),
                       E_RollbackTransaction bctx tx])
                 else
                   (case executeChain_loop sch chain chainL tx txid ctx rest w1 of
                      ((completed, executed), w2, evs') \<Rightarrow>
                        ((completed, (task, retCode) # executed), w2,
                         E_Log INFO ''Starting task'' # evs
                         @ (if retCode \<noteq> 0 then [E_Log INFO ''Ignoring task failure''] else [])
                         @ evs'))))"

text \<open>\<open>executeChain\<close> (chain.go, lines 159 to 214).\<close>

definition executeChain :: "'w Scheduler \<Rightarrow> Context \<Rightarrow> Chain \<Rightarrow> 'w \<Rightarrow> 'w \<times> event list" where
  "executeChain sch ctx0 chain w0 =
     (case getTimeoutContext ctx0 (ChainTimeout (Config sch)) (Chain.Timeout chain) of
        (ctx, cancel) \<Rightarrow>
          (case StartTransaction (pgengine sch) ctx (Chain.ChainID chain) w0 of
             (Inl err, w1) \<Rightarrow>
               (w1, [E_StartTransaction ctx (Chain.ChainID chain),
                     E_Log ERROR ''Cannot start transaction''] @ deferred cancel)
           | (Inr (tx, txid), w1) \<Rightarrow>
               (case GetChainElements (pgengine sch) ctx tx (Chain.ChainID chain) w1 of
                  (Inl err, w2) \<Rightarrow>
                    (RollbackTransaction (pgengine sch) ctx tx w2,
                     [E_StartTransaction ctx (Chain.ChainID chain),
                      E_GetChainElements ctx tx (Chain.ChainID chain),
                      E_Log ERROR ''Failed to retrieve chain elements'',
                      E_RollbackTransaction ctx tx] @ deferred cancel)
                | (Inr ChainTasks, w2) \<Rightarrow>
                    (let chainL = [(''chain'', Chain.ChainID chain), (''txid'', txid)]
                     in case executeChain_loop sch chain chainL tx txid ctx ChainTasks w2 of
                          ((False, executed), w3, evs) \<Rightarrow>
                            (w3, [E_StartTransaction ctx (Chain.ChainID chain),
                                  E_GetChainElements ctx tx (Chain.ChainID chain)]
                                 @ evs @ deferred cancel)
                        | ((True, executed), w3, evs) \<Rightarrow>
                            (let bctx = WithLogger Background chainL;
                                 w4 = CommitTransaction (pgengine sch) bctx tx w3;
                                 w5 = RemoveChainRunStatus (pgengine sch) bctx (Chain.ChainID chain) w4
                             in if SelfDestruct chain then
                                  (snd (DeleteChainConfig (pgengine sch) bctx (Chain.ChainID chain) w5),
                                   [E_StartTransaction ctx (Chain.ChainID chain),
                                    E_GetChainElements ctx tx (Chain.ChainID chain)]
                                   @ evs
                                   @ [E_CommitTransaction bctx tx,
                                      E_Log INFO ''Chain executed successfully'',
                                      E_RemoveChainRunStatus bctx (Chain.ChainID chain),
                                      E_DeleteChainConfig bctx (Chain.ChainID chain)]
                                   @ deferred cancel)
                                else
                                  (w5,
                                   [E_StartTransaction ctx (Chain.ChainID chain),
                                    E_GetChainElements ctx tx (Chain.ChainID chain)]
                                   @ evs
                                   @ [E_CommitTransaction bctx tx,
                                      E_Log INFO ''Chain executed successfully'',
                                      E_RemoveChainRunStatus bctx (Chain.ChainID chain)]
                                   @ deferred cancel))))))"

section \<open>Crash repair and the client lock (access.go)\<close>

text \<open>
  Modelled from the spec: the table \<open>timetable.run_status\<close> is declared outside the files
  at hand (the schema). The specification calls it an append-only log whose rows record the
  transitions STARTED, CHAIN_FAILED, CHAIN_DONE and DEAD; a row has the columns that the
  statements of access.go name, each nullable (\<open>None\<close> is NULL), and the key \<open>run_status\<close>,
  which the sequence \<open>run_status_run_status_seq\<close> numbers.
\<close>

record run_status_row =
  run_status :: int
  chain_id :: "int option"
  execution_status :: "string option"
  current_execution_element :: "int option"
  started :: "int option"
  last_status_update :: "int option"
  start_status :: "int option"
  chain_execution_config :: "int option"
  client_name :: "string option"

record database =
  run_status_rows :: "run_status_row list"
  run_status_seq :: int

text \<open>
  The inner query of \<open>FixSchedulerCrash\<close>: the rows of the client in one of the four
  states, grouped by \<open>start_status\<close> (NULL is a group of its own), and of these groups the
  ones with fewer than two rows.
\<close>

definition crashed_rows :: "string \<Rightarrow> run_status_row list \<Rightarrow> run_status_row list" where
  "crashed_rows ClientName rs =
     filter (\<lambda>r. execution_status r \<in> set [Some ''STARTED'', Some ''CHAIN_FAILED'',
                                            Some ''CHAIN_DONE'', Some ''DEAD'']
                 \<and> client_name r = Some ClientName) rs"

definition abc :: "string \<Rightarrow> run_status_row list \<Rightarrow> int option list" where
  "abc ClientName rs =
     filter (\<lambda>g. length (filter (\<lambda>r. start_status r = g) (crashed_rows ClientName rs)) < 2)
       (remdups (map start_status (crashed_rows ClientName rs)))"

text \<open>The row that the statement inserts for a group; the columns it does not name are NULL.\<close>

definition DEAD_row :: "string \<Rightarrow> int \<Rightarrow> int option \<Rightarrow> run_status_row" where
  "DEAD_row ClientName now g =
     \<lparr>run_status = 0, chain_id = None, execution_status = Some ''DEAD'',
      current_execution_element = None, started = Some now, last_status_update = Some now,
      start_status = g, chain_execution_config = Some 0, client_name = Some ClientName\<rparr>"

text \<open>An inserted row takes the next value of the sequence as its key.\<close>

fun numbered :: "int \<Rightarrow> run_status_row list \<Rightarrow> run_status_row list" where
  "numbered seq [] = []"
| "numbered seq (r # rs) = r\<lparr>run_status := seq + 1\<rparr> # numbered (seq + 1) rs"

definition INSERT_INTO_run_status :: "run_status_row list \<Rightarrow> database \<Rightarrow> database" where
  "INSERT_INTO_run_status new db =
     \<lparr>run_status_rows = run_status_rows db @ numbered (run_status_seq db) new,
      run_status_seq = run_status_seq db + int (length new)\<rparr>"

datatype access_event =
    LogToDB level string
  | pg_try_advisory_lock int nat
  | time_After Duration

text \<open>
  \<open>FixSchedulerCrash\<close> (access.go, lines 22 to 34) runs one statement (\<open>now\<close> is its \<open>now()\<close>), which the server
  either executes or refuses with an error (\<open>failure\<close>); a refused statement changes nothing.
\<close>

definition FixSchedulerCrash ::
  "string \<Rightarrow> int \<Rightarrow> error option \<Rightarrow> database \<Rightarrow> database \<times> access_event list" where
  "FixSchedulerCrash ClientName now failure db =
     (case failure of
        Some err \<Rightarrow>
          (db, [LogToDB ERROR ''Error occurred during reverting from the scheduler crash: ''])
      | None \<Rightarrow>
          (INSERT_INTO_run_status
             (map (DEAD_row ClientName now) (abc ClientName (run_status_rows db))) db, []))"

subsection \<open>TryLockClientName\<close>

definition AppID :: int where
  "AppID = 0x204F04EE"

text \<open>\<open>adler32.Checksum\<close> of the standard library.\<close>

definition adler32_Checksum :: "string \<Rightarrow> nat" where
  "adler32_Checksum bs =
     (case fold (\<lambda>c (a, b). ((a + of_char c) mod 65521, (b + (a + of_char c) mod 65521) mod 65521))
             bs (1, 0) of
        (a, b) \<Rightarrow> b * 65536 + a)"

text \<open>
  \<open>TryLockClientName\<close> is lines 66 to 91 of access.go.
  One round of its loop meets two answers of the outside: what the query returned (an error,
  which leaves \<open>res\<close> as it is, or the boolean it scanned into \<open>res\<close>) and which case of
  the \<open>select\<close> was taken.
\<close>

datatype select_case = timer_fired | ctx_Done

text \<open>The step of the back-off: \<open>if wt < maxWaitTime { wt = wt * 2 }\<close>.\<close>

definition backoff :: "int \<Rightarrow> int \<Rightarrow> int" where
  "backoff maxWaitTime wt = (if wt < maxWaitTime then wrap64 (wt * 2) else wt)"

text \<open>
  The loop \<open>for !res\<close>, run against the answers of the outside, round by round. \<open>WaitTime\<close>
  and \<open>maxWaitTime\<close> are constants of package pgengine declared outside the files at hand,
  so they are parameters. The result is \<open>None\<close> when the answers run out before the loop
  ends: the function has not returned.
\<close>

fun TryLockClientName_loop ::
  "int \<Rightarrow> string \<Rightarrow> ((error + bool) \<times> select_case) list \<Rightarrow> int
    \<Rightarrow> bool option \<times> access_event list" where
  "TryLockClientName_loop maxWaitTime ClientName [] wt = (None, [])"
| "TryLockClientName_loop maxWaitTime ClientName ((answer, sel) # rounds) wt =
     (let res = (case answer of Inl err \<Rightarrow> False | Inr b \<Rightarrow> b);
          evs = [LogToDB DEBUG ''Trying to get advisory lock for '',
                 pg_try_advisory_lock AppID (adler32_Checksum ClientName)]
                @ (case answer of
                     Inl err \<Rightarrow> [LogToDB ERROR ''Error occurred during client name locking: '']
                   | Inr b \<Rightarrow> [])
                @ (if \<not> res
                   then [LogToDB ERROR ''Another client is already connected to server with name: '']
                   else [])
                @ [time_After (wrap64 (wt * Second))]
      in case sel of
           ctx_Done \<Rightarrow> (Some False, evs @ [LogToDB ERROR (''request cancelled'' @ [CHR 0x0A])])
         | timer_fired \<Rightarrow>
             (if res then (Some True, evs)
              else (case TryLockClientName_loop maxWaitTime ClientName rounds (backoff maxWaitTime wt) of
                      (r, evs') \<Rightarrow> (r, evs @ evs'))))"

definition TryLockClientName ::
  "int \<Rightarrow> int \<Rightarrow> string \<Rightarrow> ((error + bool) \<times> select_case) list
    \<Rightarrow> bool option \<times> access_event list" where
  "TryLockClientName WaitTime maxWaitTime ClientName rounds =
     TryLockClientName_loop maxWaitTime ClientName rounds WaitTime"

section \<open>Reading event lists\<close>

text \<open>The invocations of the external program among the events, each with what it returned.\<close>

datatype invocation =
  Invocation (inv_ctx: Context) (inv_options: CommanderOptions) (inv_out: string) (inv_err: "error option")

fun run_of :: "event \<Rightarrow> invocation list" where
  "run_of (E_CombinedOutputWithOptions ctx co out err) = [Invocation ctx co out err]"
| "run_of e = []"

definition invocations :: "event list \<Rightarrow> invocation list" where
  "invocations evs = concat (map run_of evs)"

text \<open>The exit code that the sources return for an error of the commander.\<close>

fun code_of :: "error \<Rightarrow> int" where
  "code_of (exec_ExitError exitCode m) = exitCode"
| "code_of (errors_New m) = - 1"

text \<open>
  What the invocations \<open>runs\<close> of one run of the loop over \<open>pvs\<close> and its result \<open>r\<close>
  have to do with each other; \<open>s0\<close> is the value of \<open>stdout\<close> before the loop.
\<close>

definition program_runs ::
  "'w Scheduler \<Rightarrow> Context \<Rightarrow> ExecuteProgramOptions \<Rightarrow> string \<Rightarrow> string list \<Rightarrow> string
    \<Rightarrow> int \<times> string \<times> error option \<Rightarrow> invocation list \<Rightarrow> bool" where
  "program_runs sch ctx opts command pvs s0 r runs \<longleftrightarrow>
       length runs \<le> length pvs
     \<and> map (\<lambda>i. Inr (Args (inv_options i))) runs
         = map (\<lambda>val. if val \<noteq> [] then json_Unmarshal sch val else Inr [])
             (take (length runs) pvs)
     \<and> (\<forall>i \<in> set runs.
           inv_ctx i = ctx
         \<and> inv_options i = CommanderOptions (ChainId opts) (TaskId opts) command (Args (inv_options i)))
     \<and> (\<forall>i \<in> set (butlast runs). inv_err i = None)
     \<and> (if runs \<noteq> [] \<and> inv_err (last runs) \<noteq> None then
          r = (code_of (the (inv_err (last runs))), TrimSpace (inv_out (last runs)),
               inv_err (last runs))
        else if length runs < length pvs then
          (\<exists>e. (let val = pvs ! length runs
                in if val \<noteq> [] then json_Unmarshal sch val else Inr []) = Inl e
               \<and> r = (- 1, [], Some e))
        else
          r = (0, if runs = [] then s0 else TrimSpace (inv_out (last runs)), None))"

text \<open>Kinds of events: the audit call, a call of a cancel function, the fetch of parameters.\<close>

fun is_audit :: "event \<Rightarrow> bool" where
  "is_audit (E_LogChainElementExecution ctx task retCode out) = True"
| "is_audit e = False"

fun is_cancel :: "event \<Rightarrow> bool" where
  "is_cancel (E_cancel c) = True"
| "is_cancel e = False"

fun is_fetch :: "event \<Rightarrow> bool" where
  "is_fetch (E_GetChainParamValues ctx tx task) = True"
| "is_fetch e = False"

text \<open>The events of a program task: log lines and invocations under the context \<open>ctx\<close>.\<close>

fun is_program_event :: "Context \<Rightarrow> event \<Rightarrow> bool" where
  "is_program_event ctx (E_Log l m) = True"
| "is_program_event ctx (E_CombinedOutputWithOptions c co out err) = (c = ctx)"
| "is_program_event ctx e = False"

text \<open>The waits and the lock attempts among the events of \<open>TryLockClientName\<close>, in order.\<close>

fun wait_of :: "access_event \<Rightarrow> Duration list" where
  "wait_of (time_After d) = [d]"
| "wait_of e = []"

definition waits :: "access_event list \<Rightarrow> Duration list" where
  "waits evs = concat (map wait_of evs)"

fun attempt_of :: "access_event \<Rightarrow> (int \<times> nat) list" where
  "attempt_of (pg_try_advisory_lock k1 k2) = [(k1, k2)]"
| "attempt_of e = []"

definition attempts :: "access_event list \<Rightarrow> (int \<times> nat) list" where
  "attempts evs = concat (map attempt_of evs)"

text \<open>
  A round ends the loop when the lock was acquired or the context was done in its
  \<open>select\<close>.
\<close>

definition decisive :: "(error + bool) \<times> select_case \<Rightarrow> bool" where
  "decisive r \<longleftrightarrow> fst r = Inr True \<or> snd r = ctx_Done"

text \<open>
  The events that \<open>executeChainElement\<close> causes after it has fetched the parameters, and the
  two calls that end a failed chain.
\<close>

fun is_task_event :: "event \<Rightarrow> bool" where
  "is_task_event (E_Log l m) = True"
| "is_task_event (E_CombinedOutputWithOptions ctx co out err) = True"
| "is_task_event (E_ExecuteSQLTask ctx tx task paramValues) = True"
| "is_task_event (E_executeTask ctx script paramValues) = True"
| "is_task_event (E_LogChainElementExecution ctx task retCode out) = True"
| "is_task_event (E_cancel c) = True"
| "is_task_event e = False"

fun is_teardown :: "event \<Rightarrow> bool" where
  "is_teardown (E_RemoveChainRunStatus ctx chainID) = True"
| "is_teardown (E_RollbackTransaction ctx tx) = True"
| "is_teardown e = False"

text \<open>
  What one run of the loop of \<open>executeChain\<close> over the tasks \<open>ts\<close> satisfies: \<open>executed\<close>
  lists the tasks that ran, each with its \<open>retCode\<close>, and \<open>evs\<close> the events.
\<close>

definition loop_outcome ::
  "Chain \<Rightarrow> tx \<Rightarrow> ChainTask list \<Rightarrow> bool \<Rightarrow> (ChainTask \<times> int) list \<Rightarrow> event list \<Rightarrow> bool" where
  "loop_outcome chain tx ts completed executed evs \<longleftrightarrow>
      map (\<lambda>x. (TaskID (fst x), IgnoreError (fst x))) executed
        = map (\<lambda>t. (TaskID t, IgnoreError t)) (take (length executed) ts)
    \<and> length (filter is_fetch evs) = length executed
    \<and> (\<forall>x \<in> set (butlast executed). snd x = 0 \<or> IgnoreError (fst x))
    \<and> (if completed then
          length executed = length ts
        \<and> (\<forall>x \<in> set executed. snd x = 0 \<or> IgnoreError (fst x))
        \<and> filter is_teardown evs = []
        else
          executed \<noteq> [] \<and> snd (last executed) \<noteq> 0 \<and> \<not> IgnoreError (fst (last executed))
        \<and> (\<exists>pre l. evs = pre @ [E_Log ERROR ''Chain failed'',
                                 E_RemoveChainRunStatus (WithLogger Background l) (Chain.ChainID chain),
                                 E_RollbackTransaction (WithLogger Background l) tx]
                   \<and> filter is_teardown pre = []
                   \<and> \<not> cancellable (WithLogger Background l)))"

section \<open>Collaborators to run the model on\<close>

text \<open>
  A decoder that knows the two arrays of the specification's example and, like
  \<open>json.Unmarshal\<close>, fails on everything that is not JSON, the empty input included; a
  commander for three commands; an engine whose world is the number of programs run so far,
  on which the parameters of task 13 cannot be fetched, the script \<open>SELECT 1/0\<close> fails and
  no transaction starts for chain 0.
\<close>

definition demo_json :: "string \<Rightarrow> error + string list" where
  \<open>demo_json s =
     (if s = ''["a","b"]'' then Inr [''a'', ''b'']
      else if s = ''["c"]'' then Inr [''c'']
      else Inl (errors_New ''unexpected end of JSON input''))\<close>

definition demo_run :: "string \<Rightarrow> string list \<Rightarrow> nat \<Rightarrow> (string \<times> error option) \<times> nat" where
  "demo_run command args w =
     (if command = ''/bin/false'' then
        ((''failed'' @ [CHR 0x0A], Some (exec_ExitError 1 ''exit status 1'')), Suc w)
      else if command = ''/bin/echo'' then ((concat args @ [CHR 0x0A], None), Suc w)
      else (([], Some (errors_New ''executable file not found'')), Suc w))"

definition demo_Cmd :: "nat commander" where
  "demo_Cmd =
     \<lparr>CombinedOutput = (\<lambda>ctx command args. demo_run command args),
      CombinedOutputWithOptions =
        (\<lambda>ctx co. case co of CommanderOptions cid tid command args \<Rightarrow> demo_run command args)\<rparr>"

definition demo_pgengine :: "bool \<Rightarrow> ChainTask list \<Rightarrow> nat PgEngine" where
  \<open>demo_pgengine disabled tasks =
     \<lparr>NoProgramTasks = disabled,
      GetChainParamValues = (\<lambda>ctx tx task w.
        if TaskID task = 13 then (Inl (errors_New ''conn busy''), w)
        else (Inr (if Kind task = ''PROGRAM'' then [''["a","b"]'', ''["c"]''] else []), w)),
      ExecuteSQLTask = (\<lambda>ctx tx task paramValues w.
        if Script task = ''SELECT 1/0'' then (([], Some (errors_New ''division by zero'')), w)
        else ((''SELECT 1'', None), w)),
      LogChainElementExecution = (\<lambda>ctx task retCode out w. w),
      StartTransaction = (\<lambda>ctx chainID w.
        if chainID = 0 then (Inl (errors_New ''connection refused''), w) else (Inr (7, 42), w)),
      GetChainElements = (\<lambda>ctx tx chainID w. (Inr tasks, w)),
      RemoveChainRunStatus = (\<lambda>ctx chainID w. w),
      RollbackTransaction = (\<lambda>ctx tx w. w),
      CommitTransaction = (\<lambda>ctx tx w. w),
      DeleteChainConfig = (\<lambda>ctx chainID w. (True, w))\<rparr>\<close>

definition demo_sch :: "bool \<Rightarrow> ChainTask list \<Rightarrow> nat Scheduler" where
  "demo_sch disabled tasks =
     \<lparr>pgengine = demo_pgengine disabled tasks,
      Config = \<lparr>ChainTimeout = 0, TaskTimeout = 0\<rparr>,
      Cmd = demo_Cmd,
      json_Unmarshal = demo_json,
      executeTask = (\<lambda>ctx script paramValues w. ((''done'', None), w)),
      time_Now = (\<lambda>w. 1000000 * int w)\<rparr>"

definition demo_task :: "int \<Rightarrow> string \<Rightarrow> string \<Rightarrow> bool \<Rightarrow> ChainTask" where
  "demo_task taskID kind script ignoreError =
     \<lparr>ChainTask.ChainID = 0, TaskID = taskID, Script = script, Kind = kind,
      IgnoreError = ignoreError, Timeout = 0, StartedAt = 0, Duration = 0, Txid = 0\<rparr>"

definition demo_row :: "int \<Rightarrow> string \<Rightarrow> int option \<Rightarrow> string \<Rightarrow> run_status_row" where
  "demo_row key status opener client =
     \<lparr>run_status = key, chain_id = Some 1, execution_status = Some status,
      current_execution_element = None, started = Some 10, last_status_update = None,
      start_status = opener, chain_execution_config = Some 1, client_name = Some client\<rparr>"

definition demo_db :: database where
  "demo_db =
     \<lparr>run_status_rows =
        [demo_row 1 ''STARTED'' (Some 1) ''worker'',
         demo_row 2 ''STARTED'' (Some 2) ''worker'',
         demo_row 3 ''CHAIN_DONE'' (Some 2) ''worker'',
         demo_row 4 ''STARTED'' (Some 4) ''other'',
         demo_row 5 ''STARTED'' None ''worker''],
      run_status_seq = 5\<rparr>"

definition demo_chain_tasks :: "ChainTask list" where
  "demo_chain_tasks =
     [demo_task 1 ''SQL'' ''SELECT 1'' False,
      demo_task 2 ''SQL'' ''SELECT 1/0'' True,
      demo_task 3 ''PROGRAM'' ''/bin/false'' False,
      demo_task 4 ''SQL'' ''SELECT 1'' False]"

section \<open>Properties of the command runner\<close>

lemmas demo_defs = demo_sch_def demo_pgengine_def demo_Cmd_def demo_run_def demo_json_def

lemmas run_defs = ExecuteProgramCommandWithOptions_def ExecuteProgramCommand_def
  executeChainElement_def executeChainElement_switch_def
  getTimeoutContext_def context_WithTimeout_def Max_int_def deferred_def quot_def
  TrimSpace_def white_space_def Let_def demo_task_def

lemma invocations_simps [simp]:
  "invocations [] = []"
  "invocations (E_CombinedOutputWithOptions ctx co out err # evs) = Invocation ctx co out err # invocations evs"
  "invocations (E_Log l m # evs) = invocations evs"
  by (simp_all add: invocations_def)

lemma program_runs_Cons:
  assumes "program_runs sch ctx opts command vs (TrimSpace out) r runs"
    and "(if v \<noteq> [] then json_Unmarshal sch v else Inr []) = Inr params"
  shows "program_runs sch ctx opts command (v # vs) s0 r
           (Invocation ctx (CommanderOptions (ChainId opts) (TaskId opts) command params) out None # runs)"
proof (cases "runs = []")
  case True
  with assms show ?thesis
    unfolding program_runs_def by (simp split: if_splits)
next
  case False
  with assms show ?thesis
    unfolding program_runs_def by simp
qed

lemma loop_runs:
  "case ExecuteProgramCommandWithOptions_loop sch ctx opts command pvs s0 w of
     (r, w', evs) \<Rightarrow> program_runs sch ctx opts command pvs s0 r (invocations evs)"
proof (induction pvs arbitrary: s0 w)
  case Nil
  then show ?case by (simp add: program_runs_def)
next
  case (Cons v vs)
  show ?case
  proof (cases "if v \<noteq> [] then json_Unmarshal sch v else Inr []")
    case (Inl e)
    then show ?thesis by (simp add: program_runs_def)
  next
    case (Inr params)
    obtain out err w' where co:
      "CombinedOutputWithOptions (Cmd sch) ctx
         (CommanderOptions (ChainId opts) (TaskId opts) command params) w = ((out, err), w')"
      by (metis surj_pair)
    show ?thesis
    proof (cases err)
      case (Some e)
      with Inr co show ?thesis
        by (cases e) (simp_all add: program_runs_def)
    next
      case None
      obtain r w'' evs where rest:
        "ExecuteProgramCommandWithOptions_loop sch ctx opts command vs (TrimSpace out) w' = (r, w'', evs)"
        by (metis surj_pair)
      from Cons.IH [of "TrimSpace out" w'] rest
      have "program_runs sch ctx opts command vs (TrimSpace out) r (invocations evs)"
        by simp
      from program_runs_Cons [OF this Inr] Inr co None rest show ?thesis
        by simp
    qed
  qed
qed



lemma program_loop_events:
  "\<forall>e \<in> set (snd (snd (ExecuteProgramCommandWithOptions_loop sch ctx opts command pvs s0 w))).
     is_program_event ctx e"
proof (induction pvs arbitrary: s0 w)
  case Nil
  then show ?case by simp
next
  case (Cons v vs)
  show ?case
  proof (cases "if v \<noteq> [] then json_Unmarshal sch v else Inr []")
    case (Inl e)
    then show ?thesis by simp
  next
    case (Inr params)
    obtain out err w' where co:
      "CombinedOutputWithOptions (Cmd sch) ctx
         (CommanderOptions (ChainId opts) (TaskId opts) command params) w = ((out, err), w')"
      by (metis surj_pair)
    show ?thesis
    proof (cases err)
      case (Some e)
      with Inr co show ?thesis
        by (cases e) simp_all
    next
      case None
      with Inr co Cons.IH [of "TrimSpace out" w'] show ?thesis
        by (simp add: case_prod_beta)
    qed
  qed
qed

lemma program_events:
  "\<forall>e \<in> set (snd (snd (ExecuteProgramCommandWithOptions sch ctx opts w))). is_program_event ctx e"
  using program_loop_events [of sch ctx opts]
  by (simp add: ExecuteProgramCommandWithOptions_def Let_def)


text \<open>
  Claim C10. When the command is empty after trimming (it is empty or consists of white space
  only), \<open>ExecuteProgramCommandWithOptions\<close> returns the exit code -1, the empty output and
  an error; it leaves the world as it was and causes no event, so the commander is never
  invoked.
\<close>

theorem empty_command:
  assumes "TrimSpace (Command opts) = []"
  shows "ExecuteProgramCommandWithOptions sch ctx opts w
          = ((- 1, [], Some (errors_New ''Program command cannot be empty'')), w, [])"
  using assms by (simp add: ExecuteProgramCommandWithOptions_def)

theorem empty_command_witness:
  "TrimSpace [CHR '' '', CHR 0x09, CHR 0x0A] = []
   \<and> ExecuteProgramCommandWithOptions (demo_sch False []) Background
        \<lparr>ChainId = 1, TaskId = 2, Command = [CHR '' '', CHR 0x09, CHR 0x0A], ParamValue = [[]]\<rparr> 0
      = ((- 1, [], Some (errors_New ''Program command cannot be empty'')), 0, [])"
  using empty_command [of "\<lparr>ChainId = 1, TaskId = 2, Command = [CHR '' '', CHR 0x09, CHR 0x0A], ParamValue = [[]]\<rparr>"
                "demo_sch False []" Background 0]
  by (simp add: TrimSpace_def white_space_def)


lemma loops_agree:
  assumes same: "\<And>ctx cid tid command args w.
     CombinedOutputWithOptions (Cmd sch) ctx (CommanderOptions cid tid command args) w
       = CombinedOutput (Cmd sch) ctx command args w"
  shows "fst (ExecuteProgramCommandWithOptions_loop sch ctx opts command pvs stdout w)
          = fst (ExecuteProgramCommand_loop sch ctx command pvs stdout w)
       \<and> fst (snd (ExecuteProgramCommandWithOptions_loop sch ctx opts command pvs stdout w))
          = fst (snd (ExecuteProgramCommand_loop sch ctx command pvs stdout w))"
proof (induction pvs arbitrary: stdout w)
  case Nil
  then show ?case by simp
next
  case (Cons v vs)
  show ?case
  proof (cases "if v \<noteq> [] then json_Unmarshal sch v else Inr []")
    case (Inl e)
    then show ?thesis by simp
  next
    case (Inr params)
    obtain out err w' where co: "CombinedOutput (Cmd sch) ctx command params w = ((out, err), w')"
      by (metis surj_pair)
    show ?thesis
    proof (cases err)
      case None
      with Inr co Cons.IH [of "TrimSpace out" w'] show ?thesis
        by (simp add: same case_prod_beta)
    next
      case (Some e)
      with Inr co show ?thesis
        by (cases e) (simp_all add: same)
    qed
  qed
qed

text \<open>
  Claim C9. \<open>ExecuteProgramCommand\<close> and \<open>ExecuteProgramCommandWithOptions\<close> agree: when the
  two methods of the commander answer alike for the same command and arguments (the same
  output and error, leaving the same world), both functions return the same exit code,
  output and error, and leave the same world.
\<close>

theorem program_commands_agree:
  assumes same: "\<forall>ctx cid tid command args w.
     CombinedOutputWithOptions (Cmd sch) ctx (CommanderOptions cid tid command args) w
       = CombinedOutput (Cmd sch) ctx command args w"
  shows "fst (ExecuteProgramCommandWithOptions sch ctx
                \<lparr>ChainId = cid, TaskId = tid, Command = command, ParamValue = paramValues\<rparr> w)
          = fst (ExecuteProgramCommand sch ctx command paramValues w)
       \<and> fst (snd (ExecuteProgramCommandWithOptions sch ctx
                \<lparr>ChainId = cid, TaskId = tid, Command = command, ParamValue = paramValues\<rparr> w))
          = fst (snd (ExecuteProgramCommand sch ctx command paramValues w))"
  using loops_agree [of sch] same
  by (simp add: ExecuteProgramCommandWithOptions_def ExecuteProgramCommand_def Let_def)


theorem program_commands_agree_witness:
  \<open>fst (ExecuteProgramCommandWithOptions (demo_sch False []) Background
          \<lparr>ChainId = 1, TaskId = 2, Command = ''/bin/echo'',
           ParamValue = [''["a","b"]'', ''["c"]'']\<rparr> 0)
     = (0, ''c'', None)
   \<and> fst (ExecuteProgramCommand (demo_sch False []) Background ''/bin/echo''
          [''["a","b"]'', ''["c"]''] 0)
     = (0, ''c'', None)\<close>
  using program_commands_agree [of "demo_sch False []" Background 1 2 \<open>''/bin/echo''\<close>
          \<open>[''["a","b"]'', ''["c"]'']\<close> 0]
  by (simp add: run_defs demo_defs)

text \<open>
  Claim C3, as amended. For a command that is not empty after trimming, let \<open>pvs\<close> be the
  parameter values (the single entry \<open>""\<close> when there are none) and \<open>runs\<close> the
  invocations of the program, in order. There is at most one invocation per entry; the
  \<open>i\<close>-th invocation runs the trimmed command with the chain and task identifiers of the
  options under the given context, and its arguments are the array that \<open>json.Unmarshal\<close>
  decodes from the \<open>i\<close>-th entry, or no arguments when that entry is the empty string,
  which is not decoded. Every invocation but the last succeeded. If the last invocation
  failed, its exit code (-1 when the error is not an exit error), its trimmed output and
  its error are returned. Otherwise, if an entry is left, it is not empty, decoding it
  failed, and -1, the empty output and the decoder's error are returned. Otherwise every
  entry was run, and 0 and the trimmed output of the last invocation are returned.
\<close>

theorem program_invocations:
  assumes "TrimSpace (Command opts) \<noteq> []"
  shows "case ExecuteProgramCommandWithOptions sch ctx opts w of
     ((code, stdout, err), w', evs) \<Rightarrow>
       (let pvs = (if ParamValue opts = [] then [[]] else ParamValue opts);
            runs = invocations evs
        in length runs \<le> length pvs
         \<and> map (\<lambda>i. Inr (Args (inv_options i))) runs
             = map (\<lambda>val. if val \<noteq> [] then json_Unmarshal sch val else Inr [])
                 (take (length runs) pvs)
         \<and> (\<forall>i \<in> set runs.
               inv_ctx i = ctx
             \<and> inv_options i = CommanderOptions (ChainId opts) (TaskId opts)
                                 (TrimSpace (Command opts)) (Args (inv_options i)))
         \<and> (\<forall>i \<in> set (butlast runs). inv_err i = None)
         \<and> (if runs \<noteq> [] \<and> inv_err (last runs) \<noteq> None then
               (code, stdout, err)
                 = (code_of (the (inv_err (last runs))), TrimSpace (inv_out (last runs)),
                    inv_err (last runs))
             else if length runs < length pvs then
               (\<exists>e. pvs ! length runs \<noteq> [] \<and> json_Unmarshal sch (pvs ! length runs) = Inl e
                    \<and> (code, stdout, err) = (- 1, [], Some e))
             else
               runs \<noteq> [] \<and> (code, stdout, err) = (0, TrimSpace (inv_out (last runs)), None)))"
proof -
  define pvs where "pvs = (if ParamValue opts = [] then [[]] else ParamValue opts)"
  obtain r w' evs where run:
    "ExecuteProgramCommandWithOptions_loop sch ctx opts (TrimSpace (Command opts)) pvs [] w = (r, w', evs)"
    by (metis surj_pair)
  define runs where "runs = invocations evs"
  from loop_runs [of sch ctx opts "TrimSpace (Command opts)" pvs "[]" w] run
  have pr: "program_runs sch ctx opts (TrimSpace (Command opts)) pvs [] r runs"
    by (simp add: runs_def)
  have ne: "pvs \<noteq> []" by (simp add: pvs_def)
  have eq: "ExecuteProgramCommandWithOptions sch ctx opts w = (r, w', evs)"
    using assms run by (simp add: ExecuteProgramCommandWithOptions_def Let_def pvs_def)
  obtain code stdout err where r: "r = (code, stdout, err)"
    by (metis surj_pair)
  have full: "\<not> length runs < length pvs \<Longrightarrow> runs \<noteq> []"
    using ne by (cases runs) simp_all
  have "length runs \<le> length pvs
         \<and> map (\<lambda>i. Inr (Args (inv_options i))) runs
             = map (\<lambda>val. if val \<noteq> [] then json_Unmarshal sch val else Inr [])
                 (take (length runs) pvs)
         \<and> (\<forall>i \<in> set runs.
               inv_ctx i = ctx
             \<and> inv_options i = CommanderOptions (ChainId opts) (TaskId opts)
                                 (TrimSpace (Command opts)) (Args (inv_options i)))
         \<and> (\<forall>i \<in> set (butlast runs). inv_err i = None)
         \<and> (if runs \<noteq> [] \<and> inv_err (last runs) \<noteq> None then
               (code, stdout, err)
                 = (code_of (the (inv_err (last runs))), TrimSpace (inv_out (last runs)),
                    inv_err (last runs))
             else if length runs < length pvs then
               (\<exists>e. pvs ! length runs \<noteq> [] \<and> json_Unmarshal sch (pvs ! length runs) = Inl e
                    \<and> (code, stdout, err) = (- 1, [], Some e))
             else
               runs \<noteq> [] \<and> (code, stdout, err) = (0, TrimSpace (inv_out (last runs)), None))"
  proof (cases "runs \<noteq> [] \<and> inv_err (last runs) \<noteq> None")
    case True
    with pr show ?thesis
      unfolding program_runs_def r by simp
  next
    case False
    note no_error = this
    show ?thesis
    proof (cases "length runs < length pvs")
      case True
      from pr have "if runs \<noteq> [] \<and> inv_err (last runs) \<noteq> None then
          r = (code_of (the (inv_err (last runs))), TrimSpace (inv_out (last runs)),
               inv_err (last runs))
        else if length runs < length pvs then
          (\<exists>e. (let val = pvs ! length runs
                in if val \<noteq> [] then json_Unmarshal sch val else Inr []) = Inl e
               \<and> r = (- 1, [], Some e))
        else
          r = (0, if runs = [] then [] else TrimSpace (inv_out (last runs)), None)"
        unfolding program_runs_def by blast
      with no_error True
      have "\<exists>e. (let val = pvs ! length runs
                in if val \<noteq> [] then json_Unmarshal sch val else Inr []) = Inl e
               \<and> r = (- 1, [], Some e)"
        by (simp only: if_False if_True)
      then have "\<exists>e. pvs ! length runs \<noteq> [] \<and> json_Unmarshal sch (pvs ! length runs) = Inl e
                    \<and> (code, stdout, err) = (- 1, [], Some e)"
        unfolding r by (cases "pvs ! length runs = []") (simp_all add: Let_def)
      moreover from pr have "length runs \<le> length pvs
         \<and> map (\<lambda>i. Inr (Args (inv_options i))) runs
             = map (\<lambda>val. if val \<noteq> [] then json_Unmarshal sch val else Inr [])
                 (take (length runs) pvs)
         \<and> (\<forall>i \<in> set runs.
               inv_ctx i = ctx
             \<and> inv_options i = CommanderOptions (ChainId opts) (TaskId opts)
                                 (TrimSpace (Command opts)) (Args (inv_options i)))
         \<and> (\<forall>i \<in> set (butlast runs). inv_err i = None)"
        unfolding program_runs_def by blast
      ultimately show ?thesis
        using no_error True by (simp only: if_False if_True simp_thms) blast
    next
      case False
      from pr have "if runs \<noteq> [] \<and> inv_err (last runs) \<noteq> None then
          r = (code_of (the (inv_err (last runs))), TrimSpace (inv_out (last runs)),
               inv_err (last runs))
        else if length runs < length pvs then
          (\<exists>e. (let val = pvs ! length runs
                in if val \<noteq> [] then json_Unmarshal sch val else Inr []) = Inl e
               \<and> r = (- 1, [], Some e))
        else
          r = (0, if runs = [] then [] else TrimSpace (inv_out (last runs)), None)"
        unfolding program_runs_def by blast
      with no_error False full
      have "runs \<noteq> [] \<and> (code, stdout, err) = (0, TrimSpace (inv_out (last runs)), None)"
        unfolding r by (simp only: if_False if_True simp_thms)
      moreover from pr have "length runs \<le> length pvs
         \<and> map (\<lambda>i. Inr (Args (inv_options i))) runs
             = map (\<lambda>val. if val \<noteq> [] then json_Unmarshal sch val else Inr [])
                 (take (length runs) pvs)
         \<and> (\<forall>i \<in> set runs.
               inv_ctx i = ctx
             \<and> inv_options i = CommanderOptions (ChainId opts) (TaskId opts)
                                 (TrimSpace (Command opts)) (Args (inv_options i)))
         \<and> (\<forall>i \<in> set (butlast runs). inv_err i = None)"
        unfolding program_runs_def by blast
      ultimately show ?thesis
        using no_error False by (simp only: if_False if_True simp_thms) blast
    qed
  qed
  then show ?thesis
    unfolding eq r prod.case Let_def pvs_def [symmetric] runs_def [symmetric] .
qed


theorem program_invocations_witness:
  \<open>TrimSpace '' /bin/echo '' \<noteq> []
   \<and> (case ExecuteProgramCommandWithOptions (demo_sch False []) Background
             \<lparr>ChainId = 1, TaskId = 2, Command = '' /bin/echo '',
              ParamValue = [''["a","b"]'', ''["c"]'']\<rparr> 0 of
        ((code, stdout, err), w', evs) \<Rightarrow>
          map (\<lambda>i. Args (inv_options i)) (invocations evs) = [[''a'', ''b''], [''c'']]
        \<and> (code, stdout, err) = (0, ''c'', None))\<close>
  using program_invocations [of \<open>\<lparr>ChainId = 1, TaskId = 2, Command = '' /bin/echo '',
              ParamValue = [''["a","b"]'', ''["c"]'']\<rparr>\<close> "demo_sch False []" Background 0]
  by (simp add: run_defs demo_defs)


text \<open>
  The claim as stated fails on an entry that is the empty string: decoding it fails, and yet
  the program is invoked, with no arguments, and 0 is returned.
\<close>

theorem program_empty_entry_counterexample:
  "json_Unmarshal (demo_sch False []) [] = Inl (errors_New ''unexpected end of JSON input'')
   \<and> ExecuteProgramCommandWithOptions (demo_sch False []) Background
        \<lparr>ChainId = 1, TaskId = 2, Command = ''/bin/echo'', ParamValue = [[]]\<rparr> 0
      = ((0, [], None), 1,
         [E_CombinedOutputWithOptions Background (CommanderOptions 1 2 ''/bin/echo'' []) [CHR 0x0A] None,
          E_Log DEBUG ''Program run''])"
  by (simp add: run_defs demo_defs)


section \<open>Properties of the task executor\<close>

lemma program_event_not_audit: "is_program_event ctx e \<Longrightarrow> \<not> is_audit e"
  by (cases e) simp_all

lemma switch_no_audit:
  "filter is_audit (snd (snd (executeChainElement_switch sch ctx tx task pv w))) = []"
proof -
  have "\<forall>e \<in> set (snd (snd (ExecuteProgramCommandWithOptions sch ctx
          \<lparr>ChainId = ChainTask.ChainID task, TaskId = TaskID task,
           Command = Script task, ParamValue = pv\<rparr> w))). \<not> is_audit e"
    using program_events [of sch ctx _ w] program_event_not_audit [of ctx] by blast
  then show ?thesis
    by (simp add: executeChainElement_switch_def case_prod_beta filter_empty_conv)
qed

lemma deferred_cancel: "list_all is_cancel (deferred c)"
  by (cases c) (simp_all add: deferred_def)

lemma deferred_no_audit: "filter is_audit (deferred c) = []"
  by (cases c) (simp_all add: deferred_def)


text \<open>
  Claim C1, as amended. \<open>executeChainElement\<close> calls \<open>LogChainElementExecution\<close> exactly
  once, on \<open>context.Background()\<close>, which cannot be cancelled, with the task and the
  \<open>retCode\<close> it returns, and after that call only deferred cancel functions run, whenever
  the parameters were fetched and the task is not a PROGRAM task met while program tasks are
  disabled; this holds whatever the collaborators answer, task errors and cancelled contexts
  included. When fetching the parameters fails it returns -1, and for a PROGRAM task while
  program tasks are disabled it returns -2, in both cases without calling
  \<open>LogChainElementExecution\<close>.
\<close>

theorem audit_once:
  "case GetChainParamValues (pgengine sch) ctx tx task w of
     (Inl err, w1) \<Rightarrow>
       fst (fst (executeChainElement sch ctx tx task w)) = - 1
     \<and> filter is_audit (snd (snd (executeChainElement sch ctx tx task w))) = []
   | (Inr paramValues, w1) \<Rightarrow>
       if Kind task = ''PROGRAM'' \<and> NoProgramTasks (pgengine sch) then
         fst (fst (executeChainElement sch ctx tx task w)) = - 2
       \<and> filter is_audit (snd (snd (executeChainElement sch ctx tx task w))) = []
       else
         (case executeChainElement sch ctx tx task w of
            ((retCode, task'), w', evs) \<Rightarrow>
              \<exists>out pre post.
                 evs = pre @ [E_LogChainElementExecution Background task' retCode out] @ post
               \<and> filter is_audit pre = [] \<and> list_all is_cancel post
               \<and> filter is_audit evs = [E_LogChainElementExecution Background task' retCode out]
               \<and> \<not> cancellable Background)"
proof (cases "GetChainParamValues (pgengine sch) ctx tx task w")
  case (Pair r w1)
  show ?thesis
  proof (cases r)
    case (Inl err)
    with Pair show ?thesis
      by (simp add: executeChainElement_def)
  next
    case (Inr pv)
    obtain ctx' cancel where tc:
      "getTimeoutContext ctx (TaskTimeout (Config sch)) (ChainTask.Timeout task) = (ctx', cancel)"
      by (metis surj_pair)
    obtain res w2 evs where sw:
      "executeChainElement_switch sch ctx' tx (task\<lparr>StartedAt := time_Now sch w1\<rparr>) pv w1 = (res, w2, evs)"
      by (metis surj_pair)
    from switch_no_audit [of sch ctx' tx "task\<lparr>StartedAt := time_Now sch w1\<rparr>" pv w1] sw
    have na: "filter is_audit evs = []" by simp
    show ?thesis
    proof (cases "Kind task = ''PROGRAM'' \<and> NoProgramTasks (pgengine sch)")
      case True
      with sw have "res = None"
        by (auto simp add: executeChainElement_switch_def)
      with Pair Inr tc sw True na show ?thesis
        by (simp add: executeChainElement_def deferred_no_audit)
    next
      case False
      with sw obtain retCode0 out0 err where res: "res = Some (retCode0, out0, err)"
        by (cases res) (auto simp add: executeChainElement_switch_def split: if_splits prod.splits)
      let ?task2 = "task\<lparr>StartedAt := time_Now sch w1,
                         Duration := quot (time_Now sch w2 - time_Now sch w1) 1000\<rparr>"
      let ?retCode = "if err \<noteq> None \<and> retCode0 = 0 then - 1 else retCode0"
      let ?out = "case err of None \<Rightarrow> out0 | Some e \<Rightarrow> out0 @ [CHR 0x0A] @ Error e"
      let ?line = "case err of None \<Rightarrow> E_Log INFO ''Task executed successfully''
                   | Some e \<Rightarrow> E_Log ERROR ''Task execution failed''"
      let ?pre = "E_GetChainParamValues ctx tx task # evs @ [?line]"
      let ?evs = "?pre @ [E_LogChainElementExecution Background ?task2 ?retCode ?out] @ deferred cancel"
      have run: "executeChainElement sch ctx tx task w =
        ((?retCode, ?task2), LogChainElementExecution (pgengine sch) Background ?task2 ?retCode ?out w2, ?evs)"
        using Pair Inr tc sw res by (simp add: executeChainElement_def Let_def)
      have nl: "\<not> is_audit ?line" by (cases err) simp_all
      have pre: "filter is_audit ?pre = []"
        using na nl by simp
      have once: "filter is_audit ?evs = [E_LogChainElementExecution Background ?task2 ?retCode ?out]"
        using na nl deferred_no_audit [of cancel] by simp
      have "\<exists>out pre post.
                 ?evs = pre @ [E_LogChainElementExecution Background ?task2 ?retCode out] @ post
               \<and> filter is_audit pre = [] \<and> list_all is_cancel post
               \<and> filter is_audit ?evs = [E_LogChainElementExecution Background ?task2 ?retCode out]
               \<and> \<not> cancellable Background"
        using pre deferred_cancel [of cancel] once
        by (intro exI [of _ ?out] exI [of _ ?pre] exI [of _ "deferred cancel"]) simp
      then show ?thesis
        using Pair Inr False by (simp add: run)
    qed
  qed
qed


theorem audit_once_witness:
  "filter is_audit (snd (snd (executeChainElement (demo_sch False []) (WithCancel Background) 7
      (demo_task 1 ''SQL'' ''SELECT 1/0'' False) 0)))
    = [E_LogChainElementExecution Background (demo_task 1 ''SQL'' ''SELECT 1/0'' False) (- 1)
         ([CHR 0x0A] @ ''division by zero'')]"
  using audit_once [of "demo_sch False []" "WithCancel Background" 7 "demo_task 1 ''SQL'' ''SELECT 1/0'' False" 0]
  by (simp add: run_defs demo_defs)


text \<open>
  The claim as stated fails where the parameters cannot be fetched, and for a PROGRAM task
  while program tasks are disabled: the function returns and has not called
  \<open>LogChainElementExecution\<close>.
\<close>

theorem audit_skipped_counterexample:
  "filter is_audit (snd (snd (executeChainElement (demo_sch False []) (WithCancel Background) 7
      (demo_task 13 ''SQL'' ''SELECT 1'' False) 0))) = []
   \<and> filter is_audit (snd (snd (executeChainElement (demo_sch True []) (WithCancel Background) 7
      (demo_task 1 ''PROGRAM'' ''/bin/echo'' False) 0))) = []"
  by (simp add: run_defs demo_defs)


text \<open>
  Claim C8. When the switch leaves an error and the exit code 0, \<open>executeChainElement\<close>
  returns -1, and what it hands to \<open>LogChainElementExecution\<close> before it returns is the
  exit code -1 and the output followed by a newline and the text of the error.
\<close>

theorem error_normalized:
  assumes fetch: "GetChainParamValues (pgengine sch) ctx0 tx task w = (Inr paramValues, w1)"
    and switch: "executeChainElement_switch sch
            (fst (getTimeoutContext ctx0 (TaskTimeout (Config sch)) (ChainTask.Timeout task)))
            tx (task\<lparr>StartedAt := time_Now sch w1\<rparr>) paramValues w1
          = (Some (0, out, Some e), w2, evs)"
  shows "\<exists>task' pre post.
           executeChainElement sch ctx0 tx task w
             = ((- 1, task'),
                LogChainElementExecution (pgengine sch) Background task' (- 1)
                  (out @ [CHR 0x0A] @ Error e) w2,
                pre @ [E_LogChainElementExecution Background task' (- 1) (out @ [CHR 0x0A] @ Error e)]
                @ post)
         \<and> list_all is_cancel post"
proof -
  obtain ctx cancel where tc:
    "getTimeoutContext ctx0 (TaskTimeout (Config sch)) (ChainTask.Timeout task) = (ctx, cancel)"
    by (metis surj_pair)
  let ?task' = "task\<lparr>StartedAt := time_Now sch w1,
                      Duration := quot (time_Now sch w2 - time_Now sch w1) 1000\<rparr>"
  let ?pre = "E_GetChainParamValues ctx0 tx task # evs @ [E_Log ERROR ''Task execution failed'']"
  have "executeChainElement sch ctx0 tx task w
          = ((- 1, ?task'),
             LogChainElementExecution (pgengine sch) Background ?task' (- 1)
               (out @ [CHR 0x0A] @ Error e) w2,
             ?pre @ [E_LogChainElementExecution Background ?task' (- 1) (out @ [CHR 0x0A] @ Error e)]
             @ deferred cancel)"
    using fetch switch tc by (simp add: executeChainElement_def Let_def)
  then show ?thesis
    using deferred_cancel [of cancel] by blast
qed

theorem error_normalized_witness:
  "executeChainElement (demo_sch False []) (WithCancel Background) 7
      (demo_task 1 ''SQL'' ''SELECT 1/0'' False) 0
    = ((- 1, demo_task 1 ''SQL'' ''SELECT 1/0'' False), 0,
       [E_GetChainParamValues (WithCancel Background) 7 (demo_task 1 ''SQL'' ''SELECT 1/0'' False),
        E_ExecuteSQLTask (WithCancel Background) 7 (demo_task 1 ''SQL'' ''SELECT 1/0'' False) [],
        E_Log ERROR ''Task execution failed'',
        E_LogChainElementExecution Background (demo_task 1 ''SQL'' ''SELECT 1/0'' False) (- 1)
          ([CHR 0x0A] @ ''division by zero'')])"
  using error_normalized [of "demo_sch False []" "WithCancel Background" 7
               "demo_task 1 ''SQL'' ''SELECT 1/0'' False" 0 "[]" 0 "[]" "errors_New ''division by zero''" 0
               "[E_ExecuteSQLTask (WithCancel Background) 7 (demo_task 1 ''SQL'' ''SELECT 1/0'' False) []]"]
  by (simp add: run_defs demo_defs)


section \<open>Properties of the chain executor\<close>

text \<open>
  Claim C7. When \<open>StartTransaction\<close> fails, \<open>executeChain\<close> logs the error and returns:
  the world is as \<open>StartTransaction\<close> left it, and the only events are the call itself, the
  log line and the deferred cancel, so no task is executed and neither
  \<open>RemoveChainRunStatus\<close> nor \<open>RollbackTransaction\<close> is called.
\<close>

theorem start_failure:
  assumes "StartTransaction (pgengine sch)
             (fst (getTimeoutContext ctx0 (ChainTimeout (Config sch)) (Chain.Timeout chain)))
             (Chain.ChainID chain) w
           = (Inl err, w1)"
  shows "executeChain sch ctx0 chain w
          = (w1,
             [E_StartTransaction
                (fst (getTimeoutContext ctx0 (ChainTimeout (Config sch)) (Chain.Timeout chain)))
                (Chain.ChainID chain),
              E_Log ERROR ''Cannot start transaction'']
             @ deferred (snd (getTimeoutContext ctx0 (ChainTimeout (Config sch)) (Chain.Timeout chain))))"
  using assms by (simp add: executeChain_def case_prod_beta)

theorem start_failure_witness:
  "executeChain (demo_sch False [demo_task 1 ''SQL'' ''SELECT 1'' False]) (WithCancel Background)
      \<lparr>Chain.ChainID = 0, Timeout = 0, SelfDestruct = False\<rparr> 0
    = (0, [E_StartTransaction (WithCancel Background) 0, E_Log ERROR ''Cannot start transaction''])"
  using start_failure [of "demo_sch False [demo_task 1 ''SQL'' ''SELECT 1'' False]" "WithCancel Background"
               "\<lparr>Chain.ChainID = 0, Timeout = 0, SelfDestruct = False\<rparr>" 0
               "errors_New ''connection refused''" 0]
  by (simp add: run_defs demo_defs)


lemma program_event_task_event: "is_program_event ctx e \<Longrightarrow> is_task_event e"
  by (cases e) simp_all

lemma task_event_plain: "is_task_event e \<Longrightarrow> \<not> is_fetch e \<and> \<not> is_teardown e"
  by (cases e) simp_all

lemma switch_task_events:
  "list_all is_task_event (snd (snd (executeChainElement_switch sch ctx tx task pv w)))"
proof -
  have "\<forall>e \<in> set (snd (snd (ExecuteProgramCommandWithOptions sch ctx
          \<lparr>ChainId = ChainTask.ChainID task, TaskId = TaskID task,
           Command = Script task, ParamValue = pv\<rparr> w))). is_task_event e"
    using program_events [of sch ctx _ w] program_event_task_event [of ctx] by blast
  then show ?thesis
    by (simp add: executeChainElement_switch_def case_prod_beta list_all_iff)
qed

lemma deferred_task_events: "list_all is_task_event (deferred c)"
  by (cases c) (simp_all add: deferred_def)

lemma element_events:
  "\<exists>rest. snd (snd (executeChainElement sch ctx tx task w)) = E_GetChainParamValues ctx tx task # rest
        \<and> list_all is_task_event rest"
proof (cases "GetChainParamValues (pgengine sch) ctx tx task w")
  case (Pair r w1)
  show ?thesis
  proof (cases r)
    case (Inl err)
    with Pair show ?thesis
      by (simp add: executeChainElement_def)
  next
    case (Inr pv)
    obtain ctx' cancel where tc:
      "getTimeoutContext ctx (TaskTimeout (Config sch)) (ChainTask.Timeout task) = (ctx', cancel)"
      by (metis surj_pair)
    obtain res w2 evs where sw:
      "executeChainElement_switch sch ctx' tx (task\<lparr>StartedAt := time_Now sch w1\<rparr>) pv w1 = (res, w2, evs)"
      by (metis surj_pair)
    from switch_task_events [of sch ctx' tx "task\<lparr>StartedAt := time_Now sch w1\<rparr>" pv w1] sw
    have te: "list_all is_task_event evs" by simp
    show ?thesis
    proof (cases res)
      case None
      with Pair Inr tc sw te deferred_task_events [of cancel] show ?thesis
        by (simp add: executeChainElement_def)
    next
      case (Some r3)
      obtain retCode0 out0 err where r3: "r3 = (retCode0, out0, err)"
        by (metis surj_pair)
      from Some r3 Pair Inr tc sw te deferred_task_events [of cancel] show ?thesis
        by (cases err) (simp_all add: executeChainElement_def Let_def)
    qed
  qed
qed

lemma element_task:
  "TaskID (snd (fst (executeChainElement sch ctx tx task w))) = TaskID task
 \<and> IgnoreError (snd (fst (executeChainElement sch ctx tx task w))) = IgnoreError task"
  by (simp add: executeChainElement_def Let_def split: prod.split sum.split option.split)

lemma loop_outcome_fatal:
  assumes "list_all is_task_event rest" and "retCode \<noteq> 0" and "\<not> IgnoreError task"
    and "TaskID task = TaskID task0" and "IgnoreError task = IgnoreError task0"
  shows "loop_outcome chain tx (task0 # ts) False [(task, retCode)]
           (E_Log INFO ''Starting task'' # (E_GetChainParamValues ctx tx' task1 # rest)
            @ [E_Log ERROR ''Chain failed'',
               E_RemoveChainRunStatus (WithLogger Background l) (Chain.ChainID chain),
               E_RollbackTransaction (WithLogger Background l) tx])"
proof -
  from assms(1) have plain: "filter is_fetch rest = []" "filter is_teardown rest = []"
    using task_event_plain by (simp_all add: list_all_iff filter_empty_conv)
  have "\<exists>pre la. E_Log INFO ''Starting task'' # (E_GetChainParamValues ctx tx' task1 # rest)
            @ [E_Log ERROR ''Chain failed'',
               E_RemoveChainRunStatus (WithLogger Background l) (Chain.ChainID chain),
               E_RollbackTransaction (WithLogger Background l) tx]
           = pre @ [E_Log ERROR ''Chain failed'',
                    E_RemoveChainRunStatus (WithLogger Background la) (Chain.ChainID chain),
                    E_RollbackTransaction (WithLogger Background la) tx]
         \<and> filter is_teardown pre = []
         \<and> \<not> cancellable (WithLogger Background la)"
    using plain
    by (intro exI [of _ "E_Log INFO ''Starting task'' # E_GetChainParamValues ctx tx' task1 # rest"]
              exI [of _ l]) simp
  then show ?thesis
    using assms plain unfolding loop_outcome_def by simp
qed

lemma loop_outcome_continue:
  assumes head: "length (filter is_fetch head) = 1" "filter is_teardown head = []"
    and ok: "retCode = 0 \<or> IgnoreError task"
    and same: "TaskID task = TaskID task0" "IgnoreError task = IgnoreError task0"
    and tl: "loop_outcome chain tx ts completed executed evs'"
  shows "loop_outcome chain tx (task0 # ts) completed ((task, retCode) # executed) (head @ evs')"
proof -
  from tl have m: "map (\<lambda>x. (TaskID (fst x), IgnoreError (fst x))) executed
        = map (\<lambda>t. (TaskID t, IgnoreError t)) (take (length executed) ts)"
    and f: "length (filter is_fetch evs') = length executed"
    and b: "\<forall>x \<in> set (butlast executed). snd x = 0 \<or> IgnoreError (fst x)"
    unfolding loop_outcome_def by blast+
  have m': "map (\<lambda>x. (TaskID (fst x), IgnoreError (fst x))) ((task, retCode) # executed)
        = map (\<lambda>t. (TaskID t, IgnoreError t)) (take (length ((task, retCode) # executed)) (task0 # ts))"
    using m same by simp
  have f': "length (filter is_fetch (head @ evs')) = length ((task, retCode) # executed)"
    using f head by simp
  have b': "\<forall>x \<in> set (butlast ((task, retCode) # executed)). snd x = 0 \<or> IgnoreError (fst x)"
    using b ok by simp
  show ?thesis
  proof (cases completed)
    case True
    with tl have "length executed = length ts"
      and "\<forall>x \<in> set executed. snd x = 0 \<or> IgnoreError (fst x)"
      and "filter is_teardown evs' = []"
      unfolding loop_outcome_def by simp_all
    then have "length ((task, retCode) # executed) = length (task0 # ts)"
      and "\<forall>x \<in> set ((task, retCode) # executed). snd x = 0 \<or> IgnoreError (fst x)"
      and "filter is_teardown (head @ evs') = []"
      using ok head by simp_all
    with m' f' b' True show ?thesis
      unfolding loop_outcome_def by (simp only: if_True simp_thms)
  next
    case False
    with tl have ne: "executed \<noteq> []" and l1: "snd (last executed) \<noteq> 0"
      and l2: "\<not> IgnoreError (fst (last executed))"
      and ex: "\<exists>pre l. evs' = pre @ [E_Log ERROR ''Chain failed'',
                     E_RemoveChainRunStatus (WithLogger Background l) (Chain.ChainID chain),
                     E_RollbackTransaction (WithLogger Background l) tx]
                   \<and> filter is_teardown pre = []
                   \<and> \<not> cancellable (WithLogger Background l)"
      unfolding loop_outcome_def by simp_all
    from ex obtain pre l where pre:
      "evs' = pre @ [E_Log ERROR ''Chain failed'',
                     E_RemoveChainRunStatus (WithLogger Background l) (Chain.ChainID chain),
                     E_RollbackTransaction (WithLogger Background l) tx]"
      "filter is_teardown pre = []"
      by blast
    have ex': "\<exists>pre' la. head @ evs'
           = pre' @ [E_Log ERROR ''Chain failed'',
                    E_RemoveChainRunStatus (WithLogger Background la) (Chain.ChainID chain),
                    E_RollbackTransaction (WithLogger Background la) tx]
         \<and> filter is_teardown pre' = []
         \<and> \<not> cancellable (WithLogger Background la)"
      using pre head
      by (intro exI [of _ "head @ pre"] exI [of _ l]) simp
    have "(task, retCode) # executed \<noteq> []"
      and "snd (last ((task, retCode) # executed)) \<noteq> 0"
      and "\<not> IgnoreError (fst (last ((task, retCode) # executed)))"
      using ne l1 l2 by simp_all
    with m' f' b' ex' False show ?thesis
      unfolding loop_outcome_def by (simp only: if_False simp_thms)
  qed
qed

lemma loop_runs_outcome:
  "case executeChain_loop sch chain chainL tx txid ctx ts w of
     ((completed, executed), w', evs) \<Rightarrow> loop_outcome chain tx ts completed executed evs"
proof (induction ts arbitrary: ctx w)
  case Nil
  then show ?case by (simp add: loop_outcome_def)
next
  case (Cons task0 ts)
  let ?task1 = "task0\<lparr>ChainTask.ChainID := Chain.ChainID chain, Txid := txid\<rparr>"
  let ?l = "chainL @ [(''task'', TaskID ?task1)]"
  let ?ctx = "WithLogger ctx ?l"
  obtain retCode task w1 evs where el:
    "executeChainElement sch ?ctx tx ?task1 w = ((retCode, task), w1, evs)"
    by (metis surj_pair)
  from element_events [of sch ?ctx tx ?task1 w] el obtain rest where
    evs: "evs = E_GetChainParamValues ?ctx tx ?task1 # rest" and rest: "list_all is_task_event rest"
    by auto
  from element_task [of sch ?ctx tx ?task1 w] el
  have same: "TaskID task = TaskID task0" "IgnoreError task = IgnoreError task0"
    by simp_all
  show ?case
  proof (cases "retCode \<noteq> 0 \<and> \<not> IgnoreError task")
    case True
    then have run: "executeChain_loop sch chain chainL tx txid ctx (task0 # ts) w
      = ((False, [(task, retCode)]),
         RollbackTransaction (pgengine sch) (WithLogger Background ?l) tx
           (RemoveChainRunStatus (pgengine sch) (WithLogger Background ?l) (Chain.ChainID chain) w1),
         E_Log INFO ''Starting task'' # (E_GetChainParamValues ?ctx tx ?task1 # rest)
         @ [E_Log ERROR ''Chain failed'',
            E_RemoveChainRunStatus (WithLogger Background ?l) (Chain.ChainID chain),
            E_RollbackTransaction (WithLogger Background ?l) tx])"
      using el evs by (simp add: Let_def)
    from True loop_outcome_fatal [OF rest _ _ same, of retCode chain tx ts ?ctx tx ?task1 ?l]
    show ?thesis
      unfolding run by simp
  next
    case False
    obtain completed executed w2 evs' where tl:
      "executeChain_loop sch chain chainL tx txid ?ctx ts w1 = ((completed, executed), w2, evs')"
      by (metis surj_pair)
    from Cons.IH [of ?ctx w1] tl have IH: "loop_outcome chain tx ts completed executed evs'"
      by simp
    let ?head = "E_Log INFO ''Starting task'' # (E_GetChainParamValues ?ctx tx ?task1 # rest)
            @ (if retCode \<noteq> 0 then [E_Log INFO ''Ignoring task failure''] else [])"
    have cond: "(if retCode \<noteq> 0 \<and> \<not> IgnoreError task then a else b) = b" for a b :: 'x
      using False by (rule if_not_P)
    have run: "executeChain_loop sch chain chainL tx txid ctx (task0 # ts) w
      = ((completed, (task, retCode) # executed), w2, ?head @ evs')"
      using el evs tl by (simp add: Let_def cond del: de_Morgan_conj)
    from rest have plain: "filter is_fetch rest = []" "filter is_teardown rest = []"
      using task_event_plain by (simp_all add: list_all_iff filter_empty_conv)
    have head: "length (filter is_fetch ?head) = 1" "filter is_teardown ?head = []"
      using plain by simp_all
    from False have ok: "retCode = 0 \<or> IgnoreError task" by blast
    from loop_outcome_continue [OF head ok same IH]
    show ?thesis
      unfolding run by simp
  qed
qed

text \<open>
  Claim C2. In the loop of \<open>executeChain\<close> the tasks run in declared order, each fetching
  its parameters once. Every task before the last one that ran returned 0 or has
  \<open>IgnoreError\<close> set, so after such a task the loop goes on with the next one. If the loop
  runs to its end, every task ran and nothing was removed or rolled back. Otherwise the last
  task that ran returned a non-zero exit code with \<open>IgnoreError\<close> unset, no later task ran,
  and the events end with the removal of the run status and the rollback of the
  transaction, both on a context derived from \<open>context.Background()\<close>, which cannot be
  cancelled; \<open>executeChain\<close> then returns, running only its deferred cancel.
\<close>

theorem chain_stops_at_failure:
  "(case executeChain_loop sch chain chainL tx txid ctx ts w of
     ((completed, executed), w', evs) \<Rightarrow>
        map (\<lambda>x. (TaskID (fst x), IgnoreError (fst x))) executed
          = map (\<lambda>t. (TaskID t, IgnoreError t)) (take (length executed) ts)
      \<and> length (filter is_fetch evs) = length executed
      \<and> (\<forall>x \<in> set (butlast executed). snd x = 0 \<or> IgnoreError (fst x))
      \<and> (if completed then
            length executed = length ts
          \<and> (\<forall>x \<in> set executed. snd x = 0 \<or> IgnoreError (fst x))
          \<and> filter is_teardown evs = []
          else
            executed \<noteq> [] \<and> snd (last executed) \<noteq> 0 \<and> \<not> IgnoreError (fst (last executed))
          \<and> (\<exists>pre l. evs = pre @ [E_Log ERROR ''Chain failed'',
                                   E_RemoveChainRunStatus (WithLogger Background l) (Chain.ChainID chain),
                                   E_RollbackTransaction (WithLogger Background l) tx]
                     \<and> filter is_teardown pre = []
                     \<and> \<not> cancellable (WithLogger Background l))))
   \<and> (StartTransaction (pgengine sch0)
          (fst (getTimeoutContext ctx0 (ChainTimeout (Config sch0)) (Chain.Timeout chain0)))
          (Chain.ChainID chain0) w0 = (Inr (tx0, txid0), w1)
      \<longrightarrow> GetChainElements (pgengine sch0)
          (fst (getTimeoutContext ctx0 (ChainTimeout (Config sch0)) (Chain.Timeout chain0)))
          tx0 (Chain.ChainID chain0) w1 = (Inr ChainTasks, w2)
      \<longrightarrow> executeChain_loop sch0 chain0 [(''chain'', Chain.ChainID chain0), (''txid'', txid0)] tx0 txid0
          (fst (getTimeoutContext ctx0 (ChainTimeout (Config sch0)) (Chain.Timeout chain0)))
          ChainTasks w2 = ((False, executed0), w3, evs0)
      \<longrightarrow> executeChain sch0 ctx0 chain0 w0
          = (w3, [E_StartTransaction
                    (fst (getTimeoutContext ctx0 (ChainTimeout (Config sch0)) (Chain.Timeout chain0)))
                    (Chain.ChainID chain0),
                  E_GetChainElements
                    (fst (getTimeoutContext ctx0 (ChainTimeout (Config sch0)) (Chain.Timeout chain0)))
                    tx0 (Chain.ChainID chain0)]
                 @ evs0
                 @ deferred (snd (getTimeoutContext ctx0 (ChainTimeout (Config sch0)) (Chain.Timeout chain0)))))"
proof -
  obtain completed executed w' evs where run:
    "executeChain_loop sch chain chainL tx txid ctx ts w = ((completed, executed), w', evs)"
    by (metis surj_pair)
  from loop_runs_outcome [where sch = sch and chain = chain and chainL = chainL and tx = tx
      and txid = txid and ctx = ctx and ts = ts and w = w] run
  have "loop_outcome chain tx ts completed executed evs"
    by simp
  then have first: "case executeChain_loop sch chain chainL tx txid ctx ts w of
     ((completed, executed), w', evs) \<Rightarrow>
        map (\<lambda>x. (TaskID (fst x), IgnoreError (fst x))) executed
          = map (\<lambda>t. (TaskID t, IgnoreError t)) (take (length executed) ts)
      \<and> length (filter is_fetch evs) = length executed
      \<and> (\<forall>x \<in> set (butlast executed). snd x = 0 \<or> IgnoreError (fst x))
      \<and> (if completed then
            length executed = length ts
          \<and> (\<forall>x \<in> set executed. snd x = 0 \<or> IgnoreError (fst x))
          \<and> filter is_teardown evs = []
          else
            executed \<noteq> [] \<and> snd (last executed) \<noteq> 0 \<and> \<not> IgnoreError (fst (last executed))
          \<and> (\<exists>pre l. evs = pre @ [E_Log ERROR ''Chain failed'',
                                   E_RemoveChainRunStatus (WithLogger Background l) (Chain.ChainID chain),
                                   E_RollbackTransaction (WithLogger Background l) tx]
                     \<and> filter is_teardown pre = []
                     \<and> \<not> cancellable (WithLogger Background l)))"
    unfolding run prod.case loop_outcome_def .
  have second: "StartTransaction (pgengine sch0)
          (fst (getTimeoutContext ctx0 (ChainTimeout (Config sch0)) (Chain.Timeout chain0)))
          (Chain.ChainID chain0) w0 = (Inr (tx0, txid0), w1)
      \<longrightarrow> GetChainElements (pgengine sch0)
          (fst (getTimeoutContext ctx0 (ChainTimeout (Config sch0)) (Chain.Timeout chain0)))
          tx0 (Chain.ChainID chain0) w1 = (Inr ChainTasks, w2)
      \<longrightarrow> executeChain_loop sch0 chain0 [(''chain'', Chain.ChainID chain0), (''txid'', txid0)] tx0 txid0
          (fst (getTimeoutContext ctx0 (ChainTimeout (Config sch0)) (Chain.Timeout chain0)))
          ChainTasks w2 = ((False, executed0), w3, evs0)
      \<longrightarrow> executeChain sch0 ctx0 chain0 w0
          = (w3, [E_StartTransaction
                    (fst (getTimeoutContext ctx0 (ChainTimeout (Config sch0)) (Chain.Timeout chain0)))
                    (Chain.ChainID chain0),
                  E_GetChainElements
                    (fst (getTimeoutContext ctx0 (ChainTimeout (Config sch0)) (Chain.Timeout chain0)))
                    tx0 (Chain.ChainID chain0)]
                 @ evs0
                 @ deferred (snd (getTimeoutContext ctx0 (ChainTimeout (Config sch0)) (Chain.Timeout chain0))))"
    by (simp add: executeChain_def case_prod_beta Let_def)
  from first second show ?thesis by (rule conjI)
qed

theorem chain_stops_at_failure_witness:
  "(case executeChain_loop (demo_sch False demo_chain_tasks)
          \<lparr>Chain.ChainID = 5, Timeout = 0, SelfDestruct = False\<rparr>
          [(''chain'', 5), (''txid'', 42)] 7 42 (WithCancel Background) demo_chain_tasks 0 of
     ((completed, executed), w', evs) \<Rightarrow>
        completed = False
      \<and> map (\<lambda>x. (TaskID (fst x), snd x)) executed = [(1, 0), (2, - 1), (3, 1)]
      \<and> filter is_teardown evs
          = [E_RemoveChainRunStatus
               (WithLogger Background [(''chain'', 5), (''txid'', 42), (''task'', 3)]) 5,
             E_RollbackTransaction
               (WithLogger Background [(''chain'', 5), (''txid'', 42), (''task'', 3)]) 7])
   \<and> snd (executeChain (demo_sch False demo_chain_tasks) (WithCancel Background)
          \<lparr>Chain.ChainID = 5, Timeout = 0, SelfDestruct = False\<rparr> 0)
     = [E_StartTransaction (WithCancel Background) 5, E_GetChainElements (WithCancel Background) 7 5]
       @ snd (snd (executeChain_loop (demo_sch False demo_chain_tasks)
          \<lparr>Chain.ChainID = 5, Timeout = 0, SelfDestruct = False\<rparr>
          [(''chain'', 5), (''txid'', 42)] 7 42 (WithCancel Background) demo_chain_tasks 0))"
  using chain_stops_at_failure [where sch = "demo_sch False demo_chain_tasks"
      and chain = "\<lparr>Chain.ChainID = 5, Timeout = 0, SelfDestruct = False\<rparr>"
      and chainL = "[(''chain'', 5), (''txid'', 42)]" and tx = 7 and txid = 42
      and ctx = "WithCancel Background" and ts = demo_chain_tasks and w = 0
      and ?sch0.0 = "demo_sch False demo_chain_tasks" and ?ctx0.0 = "WithCancel Background"
      and ?chain0.0 = "\<lparr>Chain.ChainID = 5, Timeout = 0, SelfDestruct = False\<rparr>"
      and ?w0.0 = 0 and ?tx0.0 = 7 and ?txid0.0 = 42 and ?w1.0 = 0
      and ChainTasks = demo_chain_tasks and ?w2.0 = 0
      and ?executed0.0 = "snd (fst (executeChain_loop (demo_sch False demo_chain_tasks)
          \<lparr>Chain.ChainID = 5, Timeout = 0, SelfDestruct = False\<rparr>
          [(''chain'', 5), (''txid'', 42)] 7 42 (WithCancel Background) demo_chain_tasks 0))"
      and ?w3.0 = "fst (snd (executeChain_loop (demo_sch False demo_chain_tasks)
          \<lparr>Chain.ChainID = 5, Timeout = 0, SelfDestruct = False\<rparr>
          [(''chain'', 5), (''txid'', 42)] 7 42 (WithCancel Background) demo_chain_tasks 0))"
      and ?evs0.0 = "snd (snd (executeChain_loop (demo_sch False demo_chain_tasks)
          \<lparr>Chain.ChainID = 5, Timeout = 0, SelfDestruct = False\<rparr>
          [(''chain'', 5), (''txid'', 42)] 7 42 (WithCancel Background) demo_chain_tasks 0))"]
  by (simp add: run_defs demo_defs demo_chain_tasks_def executeChain_def)


section \<open>Properties of the timeout context\<close>

lemma wrap64_id: "- (2 ^ 63) \<le> x \<Longrightarrow> x < 2 ^ 63 \<Longrightarrow> wrap64 x = x"
  by (simp add: wrap64_def)

lemma deferred_is_cancel: "filter is_cancel (deferred c) = deferred c"
  by (cases c) (simp_all add: deferred_def)

lemma task_switch_no_cancel:
  "filter is_cancel (snd (snd (executeChainElement_switch sch ctx tx task pv w))) = []"
proof -
  have "is_program_event ctx e \<Longrightarrow> \<not> is_cancel e" for e
    by (cases e) simp_all
  then have "\<forall>e \<in> set (snd (snd (ExecuteProgramCommandWithOptions sch ctx
          \<lparr>ChainId = ChainTask.ChainID task, TaskId = TaskID task,
           Command = Script task, ParamValue = pv\<rparr> w))). \<not> is_cancel e"
    using program_events [of sch ctx _ w] by blast
  then show ?thesis
    by (simp add: executeChainElement_switch_def case_prod_beta filter_empty_conv)
qed

text \<open>
  Claim C6, as amended. \<open>getTimeoutContext(ctx, t1, t2)\<close> returns
  \<open>context.WithTimeout(ctx, d)\<close> with its cancel function, which is not nil, when
  \<open>max(t1, t2) > 0\<close>, where \<open>d\<close> is the duration \<open>time.Millisecond * max(t1, t2)\<close> in
  64-bit nanoseconds; \<open>d\<close> is \<open>max(t1, t2)\<close> milliseconds as long as \<open>max(t1, t2)\<close> is at
  most 9223372036854. It returns the given context and a nil cancel function when
  \<open>max(t1, t2) \<le> 0\<close>. The task executor runs the switch of the task under the context that
  \<open>getTimeoutContext\<close> returns for \<open>config.TaskTimeout\<close> and \<open>task.Timeout\<close> and defers
  its cancel function; when both are 0 that is the context it was given, and nothing is
  deferred.
\<close>

theorem timeout_context:
  "getTimeoutContext ctx t1 t2 =
     (if 0 < max t1 t2
      then (WithTimeout ctx (wrap64 (Millisecond * max t1 t2)),
            Some (CancelFunc (WithTimeout ctx (wrap64 (Millisecond * max t1 t2)))))
      else (ctx, None))
   \<and> (0 < max t1 t2 \<and> max t1 t2 \<le> 9223372036854
        \<longrightarrow> wrap64 (Millisecond * max t1 t2) = 1000000 * max t1 t2)
   \<and> (GetChainParamValues (pgengine sch) ctx0 tx task w = (Inr paramValues, w1) \<longrightarrow>
        (\<exists>tail.
           snd (snd (executeChainElement sch ctx0 tx task w))
             = E_GetChainParamValues ctx0 tx task
               # snd (snd (executeChainElement_switch sch
                    (fst (getTimeoutContext ctx0 (TaskTimeout (Config sch)) (ChainTask.Timeout task)))
                    tx (task\<lparr>StartedAt := time_Now sch w1\<rparr>) paramValues w1))
               @ tail
               @ deferred (snd (getTimeoutContext ctx0 (TaskTimeout (Config sch)) (ChainTask.Timeout task)))
         \<and> filter is_cancel tail = []))
   \<and> (TaskTimeout (Config sch) = 0 \<and> ChainTask.Timeout task = 0 \<longrightarrow>
        getTimeoutContext ctx0 (TaskTimeout (Config sch)) (ChainTask.Timeout task) = (ctx0, None))"
proof -
  have a: "getTimeoutContext ctx t1 t2 =
     (if 0 < max t1 t2
      then (WithTimeout ctx (wrap64 (Millisecond * max t1 t2)),
            Some (CancelFunc (WithTimeout ctx (wrap64 (Millisecond * max t1 t2)))))
      else (ctx, None))"
    by (simp add: getTimeoutContext_def Max_int_def context_WithTimeout_def Let_def max_def)
  have b: "0 < max t1 t2 \<and> max t1 t2 \<le> 9223372036854
        \<longrightarrow> wrap64 (Millisecond * max t1 t2) = 1000000 * max t1 t2"
  proof
    assume range: "0 < max t1 t2 \<and> max t1 t2 \<le> 9223372036854"
    define m where "m = max t1 t2"
    from range have "0 < m" and "m \<le> 9223372036854"
      by (simp_all add: m_def)
    then have "- (2 ^ 63) \<le> 1000000 * m" and "1000000 * m < 2 ^ 63"
      by simp_all
    then have "wrap64 (1000000 * m) = 1000000 * m"
      by (rule wrap64_id)
    then show "wrap64 (Millisecond * max t1 t2) = 1000000 * max t1 t2"
      by (simp add: Millisecond_def m_def)
  qed
  have c: "GetChainParamValues (pgengine sch) ctx0 tx task w = (Inr paramValues, w1) \<longrightarrow>
        (\<exists>tail.
           snd (snd (executeChainElement sch ctx0 tx task w))
             = E_GetChainParamValues ctx0 tx task
               # snd (snd (executeChainElement_switch sch
                    (fst (getTimeoutContext ctx0 (TaskTimeout (Config sch)) (ChainTask.Timeout task)))
                    tx (task\<lparr>StartedAt := time_Now sch w1\<rparr>) paramValues w1))
               @ tail
               @ deferred (snd (getTimeoutContext ctx0 (TaskTimeout (Config sch)) (ChainTask.Timeout task)))
         \<and> filter is_cancel tail = [])"
  proof
    assume fetch: "GetChainParamValues (pgengine sch) ctx0 tx task w = (Inr paramValues, w1)"
    obtain ctx' cancel where tc:
      "getTimeoutContext ctx0 (TaskTimeout (Config sch)) (ChainTask.Timeout task) = (ctx', cancel)"
      by (metis surj_pair)
    obtain res w2 evs where sw:
      "executeChainElement_switch sch ctx' tx (task\<lparr>StartedAt := time_Now sch w1\<rparr>) paramValues w1
        = (res, w2, evs)"
      by (metis surj_pair)
    show "\<exists>tail.
           snd (snd (executeChainElement sch ctx0 tx task w))
             = E_GetChainParamValues ctx0 tx task
               # snd (snd (executeChainElement_switch sch
                    (fst (getTimeoutContext ctx0 (TaskTimeout (Config sch)) (ChainTask.Timeout task)))
                    tx (task\<lparr>StartedAt := time_Now sch w1\<rparr>) paramValues w1))
               @ tail
               @ deferred (snd (getTimeoutContext ctx0 (TaskTimeout (Config sch)) (ChainTask.Timeout task)))
         \<and> filter is_cancel tail = []"
    proof (cases res)
      case None
      with fetch tc sw show ?thesis
        by (intro exI [of _ "[]"]) (simp add: executeChainElement_def)
    next
      case (Some r3)
      obtain retCode0 out0 err where r3: "r3 = (retCode0, out0, err)"
        by (metis surj_pair)
      let ?task2 = "task\<lparr>StartedAt := time_Now sch w1,
                         Duration := quot (time_Now sch w2 - time_Now sch w1) 1000\<rparr>"
      let ?retCode = "if err \<noteq> None \<and> retCode0 = 0 then - 1 else retCode0"
      let ?out = "case err of None \<Rightarrow> out0 | Some e \<Rightarrow> out0 @ [CHR 0x0A] @ Error e"
      let ?line = "case err of None \<Rightarrow> E_Log INFO ''Task executed successfully''
                   | Some e \<Rightarrow> E_Log ERROR ''Task execution failed''"
      have nl: "\<not> is_cancel ?line" by (cases err) simp_all
      from Some r3 fetch tc sw nl show ?thesis
        by (intro exI [of _ "[?line, E_LogChainElementExecution Background ?task2 ?retCode ?out]"])
           (simp add: executeChainElement_def Let_def)
    qed
  qed
  have d: "TaskTimeout (Config sch) = 0 \<and> ChainTask.Timeout task = 0 \<longrightarrow>
        getTimeoutContext ctx0 (TaskTimeout (Config sch)) (ChainTask.Timeout task) = (ctx0, None)"
    by (simp add: getTimeoutContext_def Max_int_def)
  from a b c d show ?thesis by (intro conjI)
qed

theorem timeout_context_witness:
  "getTimeoutContext (WithCancel Background) 0 1500
     = (WithTimeout (WithCancel Background) 1500000000,
        Some (CancelFunc (WithTimeout (WithCancel Background) 1500000000)))
   \<and> getTimeoutContext (WithCancel Background) 0 0 = (WithCancel Background, None)
   \<and> snd (snd (executeChainElement (demo_sch False []) (WithCancel Background) 7
              (demo_task 1 ''SQL'' ''SELECT 1'' False) 0))
      = [E_GetChainParamValues (WithCancel Background) 7 (demo_task 1 ''SQL'' ''SELECT 1'' False),
         E_ExecuteSQLTask (WithCancel Background) 7 (demo_task 1 ''SQL'' ''SELECT 1'' False) [],
         E_Log INFO ''Task executed successfully'',
         E_LogChainElementExecution Background (demo_task 1 ''SQL'' ''SELECT 1'' False) 0 ''SELECT 1'']"
  using timeout_context [where ctx = "WithCancel Background" and ?t1.0 = 0 and ?t2.0 = 1500
      and sch = "demo_sch False []" and ?ctx0.0 = "WithCancel Background" and tx = 7
      and task = "demo_task 1 ''SQL'' ''SELECT 1'' False" and w = 0 and paramValues = "[]"
      and ?w1.0 = 0]
  by (simp add: run_defs demo_defs wrap64_def Millisecond_def)


text \<open>
  The claim as stated fails for a timeout above 9223372036854 milliseconds: the product
  with \<open>time.Millisecond\<close> wraps around in \<open>int64\<close>, here to a negative duration.
\<close>

theorem timeout_overflow_counterexample:
  "getTimeoutContext Background 9223372036855 0
     = (WithTimeout Background (- 9223372036854551616),
        Some (CancelFunc (WithTimeout Background (- 9223372036854551616))))
   \<and> - 9223372036854551616 \<noteq> 9223372036855 * Millisecond"
  by (simp add: getTimeoutContext_def Max_int_def context_WithTimeout_def wrap64_def Millisecond_def)


section \<open>Properties of the crash repair\<close>

lemma numbered_fields:
  "map start_status (numbered seq rs) = map start_status rs"
  "map execution_status (numbered seq rs) = map execution_status rs"
  "map client_name (numbered seq rs) = map client_name rs"
  "map chain_execution_config (numbered seq rs) = map chain_execution_config rs"
  "map started (numbered seq rs) = map started rs"
  "map last_status_update (numbered seq rs) = map last_status_update rs"
  by (induction rs arbitrary: seq) simp_all

lemma length_filter_map: "length (filter (\<lambda>r. f r = g) rs) = length (filter (\<lambda>x. x = g) (map f rs))"
  by (induction rs) simp_all

lemma distinct_length_filter_eq:
  "distinct xs \<Longrightarrow> length (filter (\<lambda>x. x = g) xs) = (if g \<in> set xs then 1 else 0)"
  by (induction xs) auto

lemma distinct_abc: "distinct (abc ClientName rs)"
  by (simp add: abc_def)

lemma set_abc:
  "g \<in> set (abc ClientName rs) \<longleftrightarrow>
     g \<in> start_status ` set (crashed_rows ClientName rs)
   \<and> length (filter (\<lambda>r. start_status r = g) (crashed_rows ClientName rs)) < 2"
  by (auto simp add: abc_def)

lemma crashed_rows_append:
  "crashed_rows ClientName (rs @ rs') = crashed_rows ClientName rs @ crashed_rows ClientName rs'"
  by (simp add: crashed_rows_def)

lemma crashed_rows_DEAD:
  "crashed_rows ClientName (numbered seq (map (DEAD_row ClientName now) gs))
     = numbered seq (map (DEAD_row ClientName now) gs)"
  by (induction gs arbitrary: seq) (simp_all add: crashed_rows_def DEAD_row_def)

lemma start_status_DEAD:
  "map start_status (numbered seq (map (DEAD_row ClientName now) gs)) = gs"
  by (simp add: numbered_fields comp_def DEAD_row_def)

lemma count_new:
  "length (filter (\<lambda>r. start_status r = g)
             (numbered seq (map (DEAD_row ClientName now) (abc ClientName rs))))
     = (if g \<in> set (abc ClientName rs) then 1 else 0)"
  using length_filter_map [of start_status g "numbered seq (map (DEAD_row ClientName now) (abc ClientName rs))"]
    distinct_length_filter_eq [OF distinct_abc, of g ClientName rs]
  by (simp only: start_status_DEAD)

lemma group_nonempty:
  "g \<in> start_status ` set rs \<Longrightarrow> 0 < length (filter (\<lambda>r. start_status r = g) rs)"
  by (induction rs) auto

lemma abc_empty:
  assumes "\<And>g. g \<in> set (map start_status (crashed_rows ClientName rs))
     \<Longrightarrow> \<not> length (filter (\<lambda>r. start_status r = g) (crashed_rows ClientName rs)) < 2"
  shows "abc ClientName rs = []"
  using assms unfolding abc_def by (simp add: filter_empty_conv)

lemma abc_after:
  "abc ClientName (rs @ numbered seq (map (DEAD_row ClientName now) (abc ClientName rs))) = []"
proof -
  let ?new = "numbered seq (map (DEAD_row ClientName now) (abc ClientName rs))"
  let ?sel = "crashed_rows ClientName rs"
  have sel': "crashed_rows ClientName (rs @ ?new) = ?sel @ ?new"
    by (simp add: crashed_rows_append crashed_rows_DEAD)
  have key: "\<not> length (filter (\<lambda>r. start_status r = g) (?sel @ ?new)) < 2"
    if g: "g \<in> set (map start_status (?sel @ ?new))" for g
  proof -
    have keys: "set (map start_status ?new) = set (abc ClientName rs)"
      by (simp only: start_status_DEAD)
    from g keys have in_sel: "g \<in> start_status ` set ?sel"
      using set_abc [of g ClientName rs] by auto
    then have one: "0 < length (filter (\<lambda>r. start_status r = g) ?sel)"
      by (rule group_nonempty)
    show ?thesis
    proof (cases "length (filter (\<lambda>r. start_status r = g) ?sel) < 2")
      case True
      with in_sel have "g \<in> set (abc ClientName rs)"
        by (simp add: set_abc)
      with one count_new [of g seq ClientName now rs] show ?thesis
        by simp
    next
      case False
      then show ?thesis by simp
    qed
  qed
  show ?thesis
  proof (rule abc_empty)
    fix g
    assume "g \<in> set (map start_status (crashed_rows ClientName (rs @ ?new)))"
    then have g: "g \<in> set (map start_status (?sel @ ?new))"
      by (simp only: sel')
    show "\<not> length (filter (\<lambda>r. start_status r = g) (crashed_rows ClientName (rs @ ?new))) < 2"
      unfolding sel' by (rule key [OF g])
  qed
qed

lemma insert_nothing: "INSERT_INTO_run_status [] db = db"
  by (simp add: INSERT_INTO_run_status_def)

lemma DEAD_rows:
  "\<forall>r \<in> set (numbered seq (map (DEAD_row ClientName now) gs)).
     execution_status r = Some ''DEAD'' \<and> client_name r = Some ClientName
   \<and> chain_execution_config r = Some 0 \<and> started r = Some now \<and> last_status_update r = Some now"
  by (induction gs arbitrary: seq) (simp_all add: DEAD_row_def)

lemma demo_crashed:
  "crashed_rows ''worker'' (run_status_rows demo_db)
     = [demo_row 1 ''STARTED'' (Some 1) ''worker'',
        demo_row 2 ''STARTED'' (Some 2) ''worker'',
        demo_row 3 ''CHAIN_DONE'' (Some 2) ''worker'',
        demo_row 5 ''STARTED'' None ''worker'']"
  by (simp add: crashed_rows_def demo_db_def demo_row_def)

lemma demo_abc: "abc ''worker'' (run_status_rows demo_db) = [Some 1, None]"
  unfolding abc_def demo_crashed by (simp add: demo_row_def)


text \<open>
  Claim C4. When its statement is executed, \<open>FixSchedulerCrash\<close> appends rows to
  \<open>run_status\<close> and changes no other: each new row is a DEAD row of the current client
  with \<open>chain_execution_config\<close> 0, and for every value of \<open>start_status\<close> there is exactly
  one new row when the rows of the client in the states STARTED, CHAIN_FAILED, CHAIN_DONE
  and DEAD with that value form a group of fewer than two rows, and none otherwise. Running
  it again on the result changes nothing. When the server refuses the statement, nothing
  changes.
\<close>

theorem crash_repair:
  "(\<exists>new.
      run_status_rows (fst (FixSchedulerCrash ClientName now None db)) = run_status_rows db @ new
    \<and> (\<forall>r \<in> set new. execution_status r = Some ''DEAD'' \<and> client_name r = Some ClientName
                     \<and> chain_execution_config r = Some 0
                     \<and> started r = Some now \<and> last_status_update r = Some now)
    \<and> (\<forall>g. length (filter (\<lambda>r. start_status r = g) new)
            = (if g \<in> start_status ` set (crashed_rows ClientName (run_status_rows db))
                  \<and> length (filter (\<lambda>r. start_status r = g)
                              (crashed_rows ClientName (run_status_rows db))) < 2
               then 1 else 0)))
   \<and> fst (FixSchedulerCrash ClientName now' None (fst (FixSchedulerCrash ClientName now None db)))
       = fst (FixSchedulerCrash ClientName now None db)
   \<and> fst (FixSchedulerCrash ClientName now (Some err) db) = db"
proof -
  let ?new = "numbered (run_status_seq db)
                (map (DEAD_row ClientName now) (abc ClientName (run_status_rows db)))"
  have rows: "run_status_rows (fst (FixSchedulerCrash ClientName now None db))
                = run_status_rows db @ ?new"
    by (simp add: FixSchedulerCrash_def INSERT_INTO_run_status_def)
  have groups: "\<forall>g. length (filter (\<lambda>r. start_status r = g) ?new)
            = (if g \<in> start_status ` set (crashed_rows ClientName (run_status_rows db))
                  \<and> length (filter (\<lambda>r. start_status r = g)
                              (crashed_rows ClientName (run_status_rows db))) < 2
               then 1 else 0)"
  proof
    fix g
    show "length (filter (\<lambda>r. start_status r = g) ?new)
            = (if g \<in> start_status ` set (crashed_rows ClientName (run_status_rows db))
                  \<and> length (filter (\<lambda>r. start_status r = g)
                              (crashed_rows ClientName (run_status_rows db))) < 2
               then 1 else 0)"
      unfolding count_new [of g "run_status_seq db" ClientName now "run_status_rows db"]
        set_abc [of g ClientName "run_status_rows db"] ..
  qed
  have first: "\<exists>new.
      run_status_rows (fst (FixSchedulerCrash ClientName now None db)) = run_status_rows db @ new
    \<and> (\<forall>r \<in> set new. execution_status r = Some ''DEAD'' \<and> client_name r = Some ClientName
                     \<and> chain_execution_config r = Some 0
                     \<and> started r = Some now \<and> last_status_update r = Some now)
    \<and> (\<forall>g. length (filter (\<lambda>r. start_status r = g) new)
            = (if g \<in> start_status ` set (crashed_rows ClientName (run_status_rows db))
                  \<and> length (filter (\<lambda>r. start_status r = g)
                              (crashed_rows ClientName (run_status_rows db))) < 2
               then 1 else 0))"
    using rows DEAD_rows [of "run_status_seq db" ClientName now] groups
    by (intro exI [of _ ?new] conjI)
  have "abc ClientName (run_status_rows (fst (FixSchedulerCrash ClientName now None db))) = []"
    unfolding rows by (rule abc_after)
  then have second:
    "fst (FixSchedulerCrash ClientName now' None (fst (FixSchedulerCrash ClientName now None db)))
       = fst (FixSchedulerCrash ClientName now None db)"
    by (simp add: FixSchedulerCrash_def [of ClientName now'] insert_nothing)
  have third: "fst (FixSchedulerCrash ClientName now (Some err) db) = db"
    by (simp add: FixSchedulerCrash_def)
  from first second third show ?thesis by (intro conjI)
qed

theorem crash_repair_witness:
  "run_status_rows (fst (FixSchedulerCrash ''worker'' 20 None demo_db))
     = run_status_rows demo_db
       @ [(DEAD_row ''worker'' 20 (Some 1))\<lparr>run_status := 6\<rparr>,
          (DEAD_row ''worker'' 20 None)\<lparr>run_status := 7\<rparr>]
   \<and> fst (FixSchedulerCrash ''worker'' 30 None (fst (FixSchedulerCrash ''worker'' 20 None demo_db)))
     = fst (FixSchedulerCrash ''worker'' 20 None demo_db)"
proof
  show "run_status_rows (fst (FixSchedulerCrash ''worker'' 20 None demo_db))
     = run_status_rows demo_db
       @ [(DEAD_row ''worker'' 20 (Some 1))\<lparr>run_status := 6\<rparr>,
          (DEAD_row ''worker'' 20 None)\<lparr>run_status := 7\<rparr>]"
    by (simp add: FixSchedulerCrash_def INSERT_INTO_run_status_def demo_abc) (simp add: demo_db_def)
  show "fst (FixSchedulerCrash ''worker'' 30 None (fst (FixSchedulerCrash ''worker'' 20 None demo_db)))
     = fst (FixSchedulerCrash ''worker'' 20 None demo_db)"
    by (rule crash_repair [THEN conjunct2, THEN conjunct1])
qed


section \<open>Properties of the client lock\<close>

lemma waits_simps [simp]:
  "waits [] = []"
  "waits (time_After d # evs) = d # waits evs"
  "waits (LogToDB l m # evs) = waits evs"
  "waits (pg_try_advisory_lock k1 k2 # evs) = waits evs"
  "waits (evs @ evs') = waits evs @ waits evs'"
  by (simp_all add: waits_def)

lemma attempts_simps [simp]:
  "attempts [] = []"
  "attempts (time_After d # evs) = attempts evs"
  "attempts (LogToDB l m # evs) = attempts evs"
  "attempts (pg_try_advisory_lock k1 k2 # evs) = (k1, k2) # attempts evs"
  "attempts (evs @ evs') = attempts evs @ attempts evs'"
  by (simp_all add: attempts_def)

lemma round_decisive:
  assumes "decisive (answer, sel)"
  shows "fst (TryLockClientName_loop M cn ((answer, sel) # post) wt)
           = Some (answer = Inr True \<and> sel = timer_fired)
       \<and> attempts (snd (TryLockClientName_loop M cn ((answer, sel) # post) wt))
           = [(AppID, adler32_Checksum cn)]
       \<and> waits (snd (TryLockClientName_loop M cn ((answer, sel) # post) wt))
           = [wrap64 (wt * Second)]"
proof (cases sel)
  case ctx_Done
  then show ?thesis
    by (cases answer) (simp_all add: Let_def)
next
  case timer_fired
  with assms have "answer = Inr True"
    by (simp add: decisive_def)
  with timer_fired show ?thesis
    by (simp add: Let_def)
qed

lemma round_idle:
  assumes "\<not> decisive (answer, sel)"
  shows "fst (TryLockClientName_loop M cn ((answer, sel) # rounds) wt)
           = fst (TryLockClientName_loop M cn rounds (backoff M wt))
       \<and> attempts (snd (TryLockClientName_loop M cn ((answer, sel) # rounds) wt))
           = (AppID, adler32_Checksum cn)
             # attempts (snd (TryLockClientName_loop M cn rounds (backoff M wt)))
       \<and> waits (snd (TryLockClientName_loop M cn ((answer, sel) # rounds) wt))
           = wrap64 (wt * Second) # waits (snd (TryLockClientName_loop M cn rounds (backoff M wt)))"
proof -
  from assms have sel: "sel = timer_fired" and na: "answer \<noteq> Inr True"
    by (cases sel; simp add: decisive_def)+
  show ?thesis
  proof (cases answer)
    case (Inl err)
    with sel show ?thesis
      by (simp add: Let_def case_prod_beta)
  next
    case (Inr b)
    with na have "b = False" by simp
    with Inr sel show ?thesis
      by (simp add: Let_def case_prod_beta)
  qed
qed

lemma loop_idle:
  assumes "\<forall>r \<in> set pre. \<not> decisive r"
  shows "fst (TryLockClientName_loop M cn (pre @ rest) wt)
           = fst (TryLockClientName_loop M cn rest ((backoff M ^^ length pre) wt))
       \<and> attempts (snd (TryLockClientName_loop M cn (pre @ rest) wt))
           = replicate (length pre) (AppID, adler32_Checksum cn)
             @ attempts (snd (TryLockClientName_loop M cn rest ((backoff M ^^ length pre) wt)))
       \<and> waits (snd (TryLockClientName_loop M cn (pre @ rest) wt))
           = map (\<lambda>k. wrap64 ((backoff M ^^ k) wt * Second)) [0..<length pre]
             @ waits (snd (TryLockClientName_loop M cn rest ((backoff M ^^ length pre) wt)))"
  using assms
proof (induction pre arbitrary: wt)
  case Nil
  then show ?case by simp
next
  case (Cons r pre)
  obtain answer sel where r: "r = (answer, sel)"
    by (metis surj_pair)
  from Cons.prems r have idle: "\<not> decisive (answer, sel)" and rest: "\<forall>r \<in> set pre. \<not> decisive r"
    by simp_all
  have shift: "map (\<lambda>k. wrap64 ((backoff M ^^ k) wt * Second)) [0..<Suc (length pre)]
      = wrap64 (wt * Second) # map (\<lambda>k. wrap64 ((backoff M ^^ k) (backoff M wt) * Second)) [0..<length pre]"
    by (simp add: upt_conv_Cons map_Suc_upt [symmetric] funpow_swap1 del: upt_Suc)
  from round_idle [OF idle, of M cn "pre @ rest" wt] Cons.IH [OF rest, of "backoff M wt"] shift
  show ?case
    unfolding r by (simp add: funpow_swap1 del: upt_Suc)
qed

lemma backoff_pow:
  assumes "0 < W" and "M = W * 2 ^ n" and "M \<le> 9223372036"
  shows "(backoff M ^^ k) W = W * 2 ^ min k n"
proof (induction k)
  case 0
  then show ?case by simp
next
  case (Suc k)
  show ?case
  proof (cases "k < n")
    case True
    then have "(2::int) ^ k < 2 ^ n" by simp
    with assms(1) have less: "W * 2 ^ k < W * 2 ^ n" by simp
    from True have "(2::int) ^ Suc k \<le> 2 ^ n"
      by (intro power_increasing) simp_all
    with assms(1) have step: "W * 2 ^ Suc k \<le> W * 2 ^ n"
      by (intro mult_left_mono) simp_all
    from assms(2,3) have bound: "W * 2 ^ n \<le> 9223372036" by simp
    from step bound have le: "W * 2 ^ Suc k \<le> 9223372036" by (rule order_trans)
    from assms(1) have pos: "0 < W * 2 ^ Suc k" by simp
    from le pos have "wrap64 (W * 2 ^ Suc k) = W * 2 ^ Suc k"
      by (simp add: wrap64_id)
    with True less Suc assms(2) show ?thesis
      by (simp add: backoff_def min_def mult.commute mult.left_commute)
  next
    case False
    with Suc assms(2) show ?thesis
      by (simp add: backoff_def min_def)
  qed
qed

lemma wait_seconds:
  assumes "0 < W" and "M = W * 2 ^ n" and "M \<le> 9223372036"
  shows "wrap64 ((backoff M ^^ k) W * Second) = W * 2 ^ min k n * Second
       \<and> W * 2 ^ min k n * Second \<le> M * Second"
proof -
  have "(2::int) ^ min k n \<le> 2 ^ n"
    by (intro power_increasing) simp_all
  with assms(1) have step: "W * 2 ^ min k n \<le> W * 2 ^ n"
    by (intro mult_left_mono) simp_all
  from assms(2,3) have bound: "W * 2 ^ n \<le> 9223372036" by simp
  from step bound have le: "W * 2 ^ min k n \<le> 9223372036" by (rule order_trans)
  from step assms(2) have leM: "W * 2 ^ min k n \<le> M" by simp
  from assms(1) have pos: "0 < W * 2 ^ min k n" by simp
  from le pos have "wrap64 (W * 2 ^ min k n * Second) = W * 2 ^ min k n * Second"
    by (intro wrap64_id) (simp_all add: Second_def)
  with leM show ?thesis
    by (simp add: backoff_pow [OF assms] Second_def)
qed

lemma AppID_is_checksum: "int (adler32_Checksum ''pg_timetable'') = AppID"
  by (simp add: adler32_Checksum_def AppID_def)


text \<open>
  Claim C5, as amended. Let the rounds of the loop be \<open>pre\<close>, in none of which the lock was
  acquired or the context was done, followed by a round \<open>r\<close> in which the lock was acquired
  or the context was done. Then \<open>TryLockClientName\<close> returns in round \<open>r\<close> (and has not
  returned before): it returns true when the lock was acquired in \<open>r\<close> and the wait that
  follows the attempt ended by the timer, and false otherwise, so it returns false only if
  the context was done, also when the lock had just been acquired. Every round attempts the
  lock on \<open>(AppID, adler32(ClientName))\<close> once and then waits; the wait of round \<open>k\<close> is the
  interval that starts at \<open>WaitTime\<close> and has been doubled after every earlier round in
  which it was below \<open>maxWaitTime\<close>. For a positive \<open>WaitTime\<close> and a \<open>maxWaitTime\<close> that
  is \<open>WaitTime\<close> times a power of two (and small enough for a duration in nanoseconds)
  that is \<open>WaitTime\<close> times two to the power of \<open>k\<close>, capped at \<open>maxWaitTime\<close>, in
  seconds.
\<close>

theorem lock_client_name:
  assumes idle: "\<forall>r \<in> set pre. fst r \<noteq> Inr True \<and> snd r = timer_fired"
    and dec: "fst r = Inr True \<or> snd r = ctx_Done"
  shows "fst (TryLockClientName WaitTime maxWaitTime ClientName (pre @ r # post))
           = Some (fst r = Inr True \<and> snd r = timer_fired)
       \<and> (fst (TryLockClientName WaitTime maxWaitTime ClientName (pre @ r # post)) = Some False
            \<longrightarrow> snd r = ctx_Done)
       \<and> fst (TryLockClientName WaitTime maxWaitTime ClientName pre) = None
       \<and> attempts (snd (TryLockClientName WaitTime maxWaitTime ClientName (pre @ r # post)))
           = replicate (Suc (length pre)) (AppID, adler32_Checksum ClientName)
       \<and> waits (snd (TryLockClientName WaitTime maxWaitTime ClientName (pre @ r # post)))
           = map (\<lambda>k. wrap64 ((backoff maxWaitTime ^^ k) WaitTime * Second)) [0..<Suc (length pre)]
       \<and> (0 < WaitTime \<and> maxWaitTime = WaitTime * 2 ^ n \<and> maxWaitTime \<le> 9223372036 \<longrightarrow>
            waits (snd (TryLockClientName WaitTime maxWaitTime ClientName (pre @ r # post)))
              = map (\<lambda>k. WaitTime * 2 ^ min k n * Second) [0..<Suc (length pre)]
          \<and> (\<forall>d \<in> set (waits (snd (TryLockClientName WaitTime maxWaitTime ClientName
                                      (pre @ r # post)))). d \<le> maxWaitTime * Second))"
proof -
  obtain answer sel where r: "r = (answer, sel)"
    by (metis surj_pair)
  from idle have idle': "\<forall>r \<in> set pre. \<not> decisive r"
    by (simp add: decisive_def)
  from dec r have dec': "decisive (answer, sel)"
    by (simp add: decisive_def)
  let ?wt = "(backoff maxWaitTime ^^ length pre) WaitTime"
  note split = loop_idle [OF idle', of maxWaitTime ClientName "r # post" WaitTime]
  note last = round_decisive [OF dec', of maxWaitTime ClientName post ?wt]
  have res: "fst (TryLockClientName WaitTime maxWaitTime ClientName (pre @ r # post))
           = Some (fst r = Inr True \<and> snd r = timer_fired)"
    using split last unfolding TryLockClientName_def r by simp
  have only: "fst (TryLockClientName WaitTime maxWaitTime ClientName (pre @ r # post)) = Some False
            \<longrightarrow> snd r = ctx_Done"
    using dec unfolding res by (cases "snd r") simp_all
  have none: "fst (TryLockClientName WaitTime maxWaitTime ClientName pre) = None"
    using loop_idle [OF idle', of maxWaitTime ClientName "[]" WaitTime]
    unfolding TryLockClientName_def by simp
  have att: "attempts (snd (TryLockClientName WaitTime maxWaitTime ClientName (pre @ r # post)))
           = replicate (Suc (length pre)) (AppID, adler32_Checksum ClientName)"
    using split last unfolding TryLockClientName_def r by (simp add: replicate_append_same)
  have wts: "waits (snd (TryLockClientName WaitTime maxWaitTime ClientName (pre @ r # post)))
           = map (\<lambda>k. wrap64 ((backoff maxWaitTime ^^ k) WaitTime * Second)) [0..<Suc (length pre)]"
    using split last unfolding TryLockClientName_def r by simp
  have closed: "0 < WaitTime \<and> maxWaitTime = WaitTime * 2 ^ n \<and> maxWaitTime \<le> 9223372036 \<longrightarrow>
            waits (snd (TryLockClientName WaitTime maxWaitTime ClientName (pre @ r # post)))
              = map (\<lambda>k. WaitTime * 2 ^ min k n * Second) [0..<Suc (length pre)]
          \<and> (\<forall>d \<in> set (waits (snd (TryLockClientName WaitTime maxWaitTime ClientName
                                      (pre @ r # post)))). d \<le> maxWaitTime * Second)"
  proof
    assume "0 < WaitTime \<and> maxWaitTime = WaitTime * 2 ^ n \<and> maxWaitTime \<le> 9223372036"
    then have c: "0 < WaitTime" "maxWaitTime = WaitTime * 2 ^ n" "maxWaitTime \<le> 9223372036"
      by simp_all
    have eq: "map (\<lambda>k. wrap64 ((backoff maxWaitTime ^^ k) WaitTime * Second)) [0..<Suc (length pre)]
            = map (\<lambda>k. WaitTime * 2 ^ min k n * Second) [0..<Suc (length pre)]"
      using wait_seconds [OF c] by (intro map_cong) simp_all
    have "\<forall>d \<in> set (map (\<lambda>k. WaitTime * 2 ^ min k n * Second) [0..<Suc (length pre)]).
            d \<le> maxWaitTime * Second"
      using wait_seconds [OF c] by (simp del: upt_Suc)
    then show "waits (snd (TryLockClientName WaitTime maxWaitTime ClientName (pre @ r # post)))
              = map (\<lambda>k. WaitTime * 2 ^ min k n * Second) [0..<Suc (length pre)]
          \<and> (\<forall>d \<in> set (waits (snd (TryLockClientName WaitTime maxWaitTime ClientName
                                      (pre @ r # post)))). d \<le> maxWaitTime * Second)"
      unfolding wts eq by simp
  qed
  from res only none att wts closed show ?thesis by (intro conjI)
qed

theorem lock_client_name_witness:
  "fst (TryLockClientName 5 80 ''worker''
          [(Inr False, timer_fired), (Inl (errors_New ''timeout''), timer_fired),
           (Inr True, timer_fired)]) = Some True
   \<and> waits (snd (TryLockClientName 5 80 ''worker''
          [(Inr False, timer_fired), (Inl (errors_New ''timeout''), timer_fired),
           (Inr True, timer_fired)]))
      = [5 * Second, 10 * Second, 20 * Second]
   \<and> fst (TryLockClientName 5 80 ''worker''
          [(Inr False, timer_fired), (Inl (errors_New ''timeout''), timer_fired)]) = None"
  using lock_client_name [where pre = "[(Inr False, timer_fired), (Inl (errors_New ''timeout''), timer_fired)]"
      and r = "(Inr True, timer_fired)" and post = "[]" and WaitTime = 5 and maxWaitTime = 80
      and ClientName = "''worker''" and n = 4]
  by (simp add: upt_conv_Cons wrap64_def backoff_def Second_def del: upt_Suc)


text \<open>
  The claim as stated fails where the context is done during the wait that follows a
  successful attempt: the lock has been acquired and the function returns false.
\<close>

theorem lock_acquired_cancelled_counterexample:
  "fst (TryLockClientName 5 80 ''worker'' [(Inr True, ctx_Done)]) = Some False"
  by (simp add: TryLockClientName_def Let_def)


end
